theory Spec2Isabelle
  imports Main "HOL-Library.AList" "HOL-Library.Char_ord" "HOL-Library.List_Lexorder"
    "HOL-Library.Sublist"
begin

section \<open>Go's JSON encoder, as far as the client uses it\<close>

text \<open>
  Go strings are byte sequences; \<open>string\<close> is a list of 8-bit characters. The JSON
  text that \<open>encoding/json\<close> writes is described in two steps: the document that is
  written (\<open>json\<close>), with the members of an object in the order they are written, and
  its rendering as bytes.
\<close>

datatype json =
    JNull
  | JBool bool
  | JString string
  | JArray "json list"
  | JObject "(string \<times> json) list"

text \<open>
  \<open>utf8.DecodeRuneInString\<close> on byte values: the rune and the number of bytes it
  takes. An invalid or truncated encoding gives \<open>(RuneError, 1)\<close>.
\<close>

definition RuneError :: nat where
  "RuneError = 0xFFFD"

definition runeLen :: "nat \<Rightarrow> nat" where
  "runeLen p0 =
     (if p0 < 0x80 then 1
      else if p0 < 0xC2 then 0
      else if p0 < 0xE0 then 2
      else if p0 < 0xF0 then 3
      else if p0 < 0xF5 then 4
      else 0)"

definition acceptRange :: "nat \<Rightarrow> nat \<times> nat" where
  "acceptRange p0 =
     (if p0 = 0xE0 then (0xA0, 0xBF)
      else if p0 = 0xED then (0x80, 0x9F)
      else if p0 = 0xF0 then (0x90, 0xBF)
      else if p0 = 0xF4 then (0x80, 0x8F)
      else (0x80, 0xBF))"

fun DecodeRune :: "nat list \<Rightarrow> nat \<times> nat" where
  "DecodeRune [] = (RuneError, 0)"
| "DecodeRune (p0 # rest) =
     (let sz = runeLen p0; lo = fst (acceptRange p0); hi = snd (acceptRange p0) in
      if sz = 1 then (p0, 1)
      else if sz = 0 then (RuneError, 1)
      else if Suc (length rest) < sz then (RuneError, 1)
      else
        let b1 = rest ! 0 in
        if b1 < lo \<or> hi < b1 then (RuneError, 1)
        else if sz \<le> 2 then ((p0 mod 32) * 64 + b1 mod 64, 2)
        else
          let b2 = rest ! 1 in
          if b2 < 0x80 \<or> 0xBF < b2 then (RuneError, 1)
          else if sz \<le> 3 then ((p0 mod 16) * 4096 + (b1 mod 64) * 64 + b2 mod 64, 3)
          else
            let b3 = rest ! 2 in
            if b3 < 0x80 \<or> 0xBF < b3 then (RuneError, 1)
            else ((p0 mod 8) * 262144 + (b1 mod 64) * 4096 + (b2 mod 64) * 64 + b3 mod 64, 4))"

text \<open>
  The string encoder with HTML escaping on, which is what \<open>json.Marshal\<close> uses.
  \<open>htmlSafeSet\<close> holds the ASCII bytes from space up that are none of
  \<open>" & < > \<close> and the backslash. Backspace and form feed are written as
  six-character unicode escapes, as the encoder did up to Go 1.21 (later versions write
  the two-character escapes). A valid multi-byte rune is copied, except U+2028 and
  U+2029, which are escaped; a byte that starts no valid rune becomes the escape of
  U+FFFD.
\<close>

definition hex :: string where
  "hex = ''0123456789abcdef''"

definition backslash :: char where
  "backslash = char_of (0x5C :: nat)"

definition dquote :: char where
  "dquote = char_of (0x22 :: nat)"

definition htmlSafeSet :: "nat \<Rightarrow> bool" where
  "htmlSafeSet b \<longleftrightarrow>
     0x20 \<le> b \<and> b < 0x80 \<and> b \<noteq> 0x22 \<and> b \<noteq> 0x26 \<and> b \<noteq> 0x3C \<and> b \<noteq> 0x3E \<and> b \<noteq> 0x5C"

definition escapeASCII :: "char \<Rightarrow> string" where
  "escapeASCII c =
     (let b = (of_char c :: nat) in
      if b = 0x5C \<or> b = 0x22 then [backslash, c]
      else if b = 0x0A then [backslash, CHR ''n'']
      else if b = 0x0D then [backslash, CHR ''r'']
      else if b = 0x09 then [backslash, CHR ''t'']
      else [backslash, CHR ''u'', CHR ''0'', CHR ''0'', hex ! (b div 16), hex ! (b mod 16)])"

function escapeBytes :: "string \<Rightarrow> string" where
  "escapeBytes [] = []"
| "escapeBytes (c # cs) =
     (let b = (of_char c :: nat) in
      if b < 0x80 then (if htmlSafeSet b then [c] else escapeASCII c) @ escapeBytes cs
      else
        let r = fst (DecodeRune (map of_char (c # cs)));
            n = snd (DecodeRune (map of_char (c # cs)))
        in
        if r = RuneError \<and> n = 1 then
          [backslash, CHR ''u'', CHR ''f'', CHR ''f'', CHR ''f'', CHR ''d''] @ escapeBytes cs
        else if r = 0x2028 \<or> r = 0x2029 then
          [backslash, CHR ''u'', CHR ''2'', CHR ''0'', CHR ''2'', hex ! (r mod 16)]
            @ escapeBytes (drop (n - 1) cs)
        else take n (c # cs) @ escapeBytes (drop (n - 1) cs))"
  by pat_completeness auto
termination
  by (relation "measure length") (simp_all del: DecodeRune.simps add: less_Suc_eq_le)

definition encodeString :: "string \<Rightarrow> string" where
  "encodeString s = [dquote] @ escapeBytes s @ [dquote]"

fun join :: "string \<Rightarrow> string list \<Rightarrow> string" where
  "join sep [] = []"
| "join sep [x] = x"
| "join sep (x # y # ys) = x @ sep @ join sep (y # ys)"

fun render :: "json \<Rightarrow> string" where
  "render JNull = ''null''"
| "render (JBool b) = (if b then ''true'' else ''false'')"
| "render (JString s) = encodeString s"
| "render (JArray xs) = ''['' @ join '','' (map render xs) @ '']''"
| "render (JObject ms) =
     ''{'' @ join '','' (map (\<lambda>m. encodeString (fst m) @ '':'' @ render (snd m)) ms) @ ''}''"

text \<open>
  \<open>isEmptyValue\<close> decides what a field tagged \<open>omitempty\<close> leaves out: false, a nil
  slice or pointer (written \<open>null\<close> otherwise), and a slice or string of length 0.
  A struct value is never empty. The name of a struct field is written as a quoted
  string; for the names that a field tag can hold this is what the string encoder writes.
\<close>

fun isEmptyValue :: "json \<Rightarrow> bool" where
  "isEmptyValue JNull = True"
| "isEmptyValue (JBool b) = (\<not> b)"
| "isEmptyValue (JString s) = (s = [])"
| "isEmptyValue (JArray xs) = (xs = [])"
| "isEmptyValue (JObject ms) = False"

definition field :: "string \<Rightarrow> json \<Rightarrow> (string \<times> json) list" where
  "field name v = [(name, v)]"

definition omitempty :: "string \<Rightarrow> json \<Rightarrow> (string \<times> json) list" where
  "omitempty name v = (if isEmptyValue v then [] else [(name, v)])"

text \<open>
  A slice field. The only empty slices the client builds are nil ones (the zero value of
  the struct field), so the empty list stands for nil.
\<close>

definition slice :: "('a \<Rightarrow> json) \<Rightarrow> 'a list \<Rightarrow> json" where
  "slice f xs = (if xs = [] then JNull else JArray (map f xs))"

section \<open>The concept model (concept.go)\<close>

datatype error = Error string | Panic string

text \<open>
  Modelled from the spec: the \<open>Broader\<close> field of \<open>Concept\<close>, which
  \<open>CreateConcept\<close> (client.go) reads and the declaration in concept.go does not have:
  a broader-concept URI that validation accepts in place of a scheme and that
  serialization never reads. The other fields are those of concept.go.
\<close>

record Concept =
  PrefLabel :: string
  AltLabels :: "string list"
  Description :: string
  Type :: string
  SchemaObject :: string
  Broader :: string
  TMEIdentifier :: string
  FactsetIdentifier :: string
  WikidataIdentifier :: string
  IsDeprecated :: bool

record conceptValue =
  conceptValue_Value :: string

record wordValue =
  wordValue_Value :: string
  wordValue_Language :: string

record uriValue =
  uriValue_Value :: string
  uriValue_Type :: string

record conceptID =
  conceptID_ID :: string

record conceptLabel =
  LiteralForm :: "wordValue list"
  conceptLabel_Type :: "string list"

record inputConcept =
  input_PrefLabel :: "conceptLabel list"
  input_AltLabels :: "conceptLabel list"
  input_Description :: "wordValue list"
  input_Type :: "string list"
  input_TopConceptOf :: conceptID
  input_TMEIdentifier :: "conceptValue list"
  input_FactsetIdentifier :: "conceptValue list"
  input_WikidataIdentifier :: "uriValue list"
  input_IsDeprecated :: "bool list"

text \<open>One encoder per struct type, following its field tags in declaration order.\<close>

definition conceptValue_json :: "conceptValue \<Rightarrow> json" where
  "conceptValue_json v = JObject (field ''@value'' (JString (conceptValue_Value v)))"

definition wordValue_json :: "wordValue \<Rightarrow> json" where
  "wordValue_json v =
     JObject (field ''@value'' (JString (wordValue_Value v))
            @ omitempty ''@language'' (JString (wordValue_Language v)))"

definition uriValue_json :: "uriValue \<Rightarrow> json" where
  "uriValue_json v =
     JObject (field ''@value'' (JString (uriValue_Value v))
            @ field ''@type'' (JString (uriValue_Type v)))"

definition conceptID_json :: "conceptID \<Rightarrow> json" where
  "conceptID_json v = JObject (field ''@id'' (JString (conceptID_ID v)))"

definition conceptLabel_json :: "conceptLabel \<Rightarrow> json" where
  "conceptLabel_json l =
     JObject (omitempty ''skosxl:literalForm'' (slice wordValue_json (LiteralForm l))
            @ omitempty ''@type'' (slice JString (conceptLabel_Type l)))"

definition inputConcept_members :: "inputConcept \<Rightarrow> (string \<times> json) list" where
  "inputConcept_members i =
       omitempty ''skosxl:prefLabel'' (slice conceptLabel_json (input_PrefLabel i))
     @ omitempty ''skosxl:altLabel'' (slice conceptLabel_json (input_AltLabels i))
     @ omitempty ''http://www.ft.com/ontology/description''
         (slice wordValue_json (input_Description i))
     @ omitempty ''@type'' (slice JString (input_Type i))
     @ omitempty ''skos:topConceptOf'' (conceptID_json (input_TopConceptOf i))
     @ omitempty ''http://www.ft.com/ontology/TMEIdentifier''
         (slice conceptValue_json (input_TMEIdentifier i))
     @ omitempty ''http://www.ft.com/ontology/factsetIdentifier''
         (slice conceptValue_json (input_FactsetIdentifier i))
     @ omitempty ''http://www.ft.com/ontology/wikidataIdentifier''
         (slice uriValue_json (input_WikidataIdentifier i))
     @ omitempty ''http://www.ft.com/ontology/isDeprecated''
         (slice JBool (input_IsDeprecated i))"

definition inputConcept_json :: "inputConcept \<Rightarrow> json" where
  "inputConcept_json i = JObject (inputConcept_members i)"

text \<open>
  \<open>json.Marshal\<close> of a value built from strings, booleans, slices and structs: none of
  the encoder's errors (unsupported type or value, a failing marshaler) can arise.
\<close>

definition json_Marshal :: "json \<Rightarrow> error + string" where
  "json_Marshal v = Inr (render v)"

definition label :: "string \<Rightarrow> conceptLabel" where
  "label s =
     \<lparr>LiteralForm = [\<lparr>wordValue_Value = s, wordValue_Language = ''en''\<rparr>],
      conceptLabel_Type = [''skosxl:Label'']\<rparr>"

text \<open>The struct that \<open>MarshalJSON\<close> fills in before it calls \<open>json.Marshal\<close>.\<close>

definition toInput :: "Concept \<Rightarrow> inputConcept" where
  "toInput c =
     \<lparr>input_PrefLabel = [label (PrefLabel c)],
      input_AltLabels = map label (AltLabels c),
      input_Description =
        (if Description c \<noteq> []
         then [\<lparr>wordValue_Value = Description c, wordValue_Language = ''en''\<rparr>] else []),
      input_Type = [''skos:Concept'', Type c],
      input_TopConceptOf = \<lparr>conceptID_ID = SchemaObject c\<rparr>,
      input_TMEIdentifier =
        (if TMEIdentifier c \<noteq> [] then [\<lparr>conceptValue_Value = TMEIdentifier c\<rparr>] else []),
      input_FactsetIdentifier =
        (if FactsetIdentifier c \<noteq> [] then [\<lparr>conceptValue_Value = FactsetIdentifier c\<rparr>]
         else []),
      input_WikidataIdentifier =
        (if WikidataIdentifier c \<noteq> []
         then [\<lparr>uriValue_Value = WikidataIdentifier c, uriValue_Type = ''xsd:anyURI''\<rparr>]
         else []),
      input_IsDeprecated = (if IsDeprecated c then [IsDeprecated c] else [])\<rparr>"

definition MarshalJSON :: "Concept \<Rightarrow> error + string" where
  "MarshalJSON c = json_Marshal (inputConcept_json (toInput c))"

section \<open>Library functions the client calls (net/url, path, strconv)\<close>

text \<open>
  \<open>url.QueryEscape\<close>: letters, digits and \<open>- _ . ~\<close> are kept, a space becomes
  \<open>+\<close>, every other byte becomes \<open>%XX\<close> in upper-case hexadecimal.
\<close>

definition upperhex :: string where
  "upperhex = ''0123456789ABCDEF''"

definition shouldEscape :: "char \<Rightarrow> bool" where
  "shouldEscape c =
     (let b = (of_char c :: nat) in
      \<not> ((0x61 \<le> b \<and> b \<le> 0x7A) \<or> (0x41 \<le> b \<and> b \<le> 0x5A) \<or> (0x30 \<le> b \<and> b \<le> 0x39)
         \<or> c = CHR ''-'' \<or> c = CHR ''_'' \<or> c = CHR ''.'' \<or> c = CHR ''~''))"

definition escapeByte :: "char \<Rightarrow> string" where
  "escapeByte c =
     (if \<not> shouldEscape c then [c]
      else if c = CHR '' '' then ''+''
      else [CHR ''%'', upperhex ! (of_char c div 16), upperhex ! (of_char c mod 16)])"

definition QueryEscape :: "string \<Rightarrow> string" where
  "QueryEscape s = concat (map escapeByte s)"

text \<open>
  \<open>url.Values\<close> is a map from a key to its values; \<open>Encode\<close> writes the keys in
  sorted order.
\<close>

type_synonym Values = "(string \<times> string list) list"

definition Values_Set :: "string \<Rightarrow> string \<Rightarrow> Values \<Rightarrow> Values" where
  "Values_Set k v vs = AList.update k [v] vs"

definition Values_Add :: "string \<Rightarrow> string \<Rightarrow> Values \<Rightarrow> Values" where
  "Values_Add k v vs =
     (case map_of vs k of
        None \<Rightarrow> AList.update k [v] vs
      | Some old \<Rightarrow> AList.update k (old @ [v]) vs)"

definition Values_Encode :: "Values \<Rightarrow> string" where
  "Values_Encode vs =
     join ''&''
       (concat (map (\<lambda>kv. map (\<lambda>v. QueryEscape (fst kv) @ ''='' @ QueryEscape v) (snd kv))
                    (sort_key fst vs)))"

text \<open>\<open>path.Clean\<close> and \<open>path.Join\<close>, on the segments between slashes.\<close>

fun splitSlash :: "string \<Rightarrow> string list" where
  "splitSlash [] = [[]]"
| "splitSlash (c # cs) =
     (if c = CHR ''/'' then [] # splitSlash cs
      else (case splitSlash cs of [] \<Rightarrow> [[c]] | s # ss \<Rightarrow> (c # s) # ss))"

fun cleanSegments :: "bool \<Rightarrow> string list \<Rightarrow> string list \<Rightarrow> string list" where
  "cleanSegments rooted out [] = out"
| "cleanSegments rooted out (s # ss) =
     (if s = ''.'' then cleanSegments rooted out ss
      else if s = ''..'' then
        (if out \<noteq> [] \<and> last out \<noteq> ''..'' then cleanSegments rooted (butlast out) ss
         else if \<not> rooted then cleanSegments rooted (out @ [''..'']) ss
         else cleanSegments rooted out ss)
      else cleanSegments rooted (out @ [s]) ss)"

definition path_Clean :: "string \<Rightarrow> string" where
  "path_Clean p =
     (case p of
        [] \<Rightarrow> ''.''
      | c # _ \<Rightarrow>
          (let rooted = (c = CHR ''/'');
               out = cleanSegments rooted [] (filter (\<lambda>s. s \<noteq> []) (splitSlash p))
           in if rooted then ''/'' @ join ''/'' out
              else if out = [] then ''.''
              else join ''/'' out))"

definition path_Join :: "string list \<Rightarrow> string" where
  "path_Join elem =
     (let es = dropWhile (\<lambda>e. e = []) elem
      in if es = [] then [] else path_Clean (join ''/'' es))"

text \<open>An \<open>int\<close> formatted with \<open>%v\<close>: its decimal digits.\<close>

fun natDigits :: "nat \<Rightarrow> string" where
  "natDigits n = (if n < 10 then [hex ! n] else natDigits (n div 10) @ [hex ! (n mod 10)])"

definition itoa :: "int \<Rightarrow> string" where
  "itoa i = (if i < 0 then ''-'' @ natDigits (nat (- i)) else natDigits (nat i))"

text \<open>\<open>json.Marshal\<close> of a \<open>map[string]string\<close>: the keys are written in sorted order.\<close>

definition stringMap_json :: "(string \<times> string) list \<Rightarrow> json" where
  "stringMap_json m = JObject (map (\<lambda>kv. (fst kv, JString (snd kv))) (sort_key fst m))"

section \<open>The HTTP exchange\<close>

text \<open>
  A \<open>url.URL\<close> with the fields the client reads or sets. The URLs the client is
  given are taken to have no user info, opaque part, raw path, fragment or forced query.
\<close>

record URL =
  Scheme :: string
  Host :: string
  Path :: string
  RawQuery :: string

text \<open>
  \<open>URL.String\<close> for such a URL. The host and the path are percent-escaped; the raw
  query is written as it is. In a host every byte is escaped but letters, digits and
  \<open>- _ . ~ ! $ & ' ( ) * + , ; = : [ ] < > "\<close>; in a path every byte but letters, digits
  and \<open>- _ . ~ $ & + , / : ; = @\<close>.
\<close>

definition shouldEscapePath :: "char \<Rightarrow> bool" where
  "shouldEscapePath c = (shouldEscape c \<and> c \<notin> set ''$&+,/:;=@'')"

definition shouldEscapeHost :: "char \<Rightarrow> bool" where
  "shouldEscapeHost c =
     (shouldEscape c \<and> c \<notin> set (''!$&()*+,;=:[]<>'' @ [CHR 0x27, CHR 0x22]))"

definition escape :: "(char \<Rightarrow> bool) \<Rightarrow> string \<Rightarrow> string" where
  "escape should s =
     concat (map (\<lambda>c. if should c
                      then [CHR ''%'', upperhex ! (of_char c div 16), upperhex ! (of_char c mod 16)]
                      else [c]) s)"

text \<open>\<open>strings.Cut\<close> at a one-byte separator: the parts before and after its first occurrence.\<close>

definition cut :: "char \<Rightarrow> string \<Rightarrow> string \<times> string" where
  "cut sep s = (takeWhile (\<lambda>c. c \<noteq> sep) s, drop 1 (dropWhile (\<lambda>c. c \<noteq> sep) s))"

definition EscapedPath :: "URL \<Rightarrow> string" where
  "EscapedPath u = (if Path u = ''*'' then ''*'' else escape shouldEscapePath (Path u))"

definition URL_String :: "URL \<Rightarrow> string" where
  "URL_String u =
     (let path = EscapedPath u in
        (if Scheme u \<noteq> [] then Scheme u @ '':'' else [])
      @ (if Scheme u \<noteq> [] \<or> Host u \<noteq> [] then
           (if Host u \<noteq> [] \<or> Path u \<noteq> [] then ''//'' else [])
           @ escape shouldEscapeHost (Host u)
         else [])
      @ (if path \<noteq> [] \<and> hd path \<noteq> CHR ''/'' \<and> Host u \<noteq> [] then ''/'' else [])
      @ (if Scheme u = [] \<and> Host u = [] \<and> CHR '':'' \<in> set (fst (cut CHR ''/'' path))
         then ''./'' else [])
      @ path
      @ (if RawQuery u \<noteq> [] then ''?'' @ RawQuery u else []))"

text \<open>
  \<open>url.Parse\<close>, followed by the \<open>removeEmptyPort\<close> of
  \<open>http.NewRequestWithContext\<close>: the scheme, host, path and raw query of the URL that
  is returned for a string that is accepted. The text from the first \<open>#\<close> on is the
  fragment; a scheme is a letter followed by letters, digits and \<open>+ - .\<close> up to a colon;
  the raw query is what follows the first \<open>?\<close> of the rest (nothing when that is its
  last byte and its only \<open>?\<close>); a rest without a leading slash after a scheme is opaque;
  after \<open>//\<close> the authority runs up to the next slash and the host is what follows its
  last \<open>@\<close>. Host and path are stored unescaped. The user info, the opaque part and
  the fragment of the result are not kept: the client sets none and reads none.
  Which strings are refused (a control byte, a malformed escape, host or port) is left to
  \<open>newRequestErr\<close> of the environment; on a refused string the value is of no use.
\<close>

definition isLetter :: "char \<Rightarrow> bool" where
  "isLetter c =
     (let b = (of_char c :: nat) in (0x61 \<le> b \<and> b \<le> 0x7A) \<or> (0x41 \<le> b \<and> b \<le> 0x5A))"

definition isSchemeChar :: "char \<Rightarrow> bool" where
  "isSchemeChar c =
     (let b = (of_char c :: nat) in
      isLetter c \<or> (0x30 \<le> b \<and> b \<le> 0x39) \<or> c = CHR ''+'' \<or> c = CHR ''-'' \<or> c = CHR ''.'')"

definition getScheme :: "string \<Rightarrow> string \<times> string" where
  "getScheme rawURL =
     (let s = takeWhile isSchemeChar rawURL; r = dropWhile isSchemeChar rawURL in
      case (s, r) of
        (c # _, d # rest) \<Rightarrow> if isLetter c \<and> d = CHR '':'' then (s, rest) else ([], rawURL)
      | _ \<Rightarrow> ([], rawURL))"

definition asciiLower :: "char \<Rightarrow> char" where
  "asciiLower c =
     (let b = (of_char c :: nat) in if 0x41 \<le> b \<and> b \<le> 0x5A then char_of (b + 32) else c)"

definition ishex :: "char \<Rightarrow> bool" where
  "ishex c =
     (let b = (of_char c :: nat) in
      (0x30 \<le> b \<and> b \<le> 0x39) \<or> (0x61 \<le> b \<and> b \<le> 0x66) \<or> (0x41 \<le> b \<and> b \<le> 0x46))"

definition unhex :: "char \<Rightarrow> nat" where
  "unhex c =
     (let b = (of_char c :: nat) in
      if 0x30 \<le> b \<and> b \<le> 0x39 then b - 0x30
      else if 0x61 \<le> b \<and> b \<le> 0x66 then b - 0x61 + 10
      else b - 0x41 + 10)"

fun unescape :: "string \<Rightarrow> string" where
  "unescape (p # a # b # cs) =
     (if p = CHR ''%'' \<and> ishex a \<and> ishex b then char_of (unhex a * 16 + unhex b) # unescape cs
      else p # unescape (a # b # cs))"
| "unescape cs = cs"

definition afterLast :: "char \<Rightarrow> string \<Rightarrow> string" where
  "afterLast sep s = rev (takeWhile (\<lambda>c. c \<noteq> sep) (rev s))"

definition removeEmptyPort :: "string \<Rightarrow> string" where
  "removeEmptyPort host = (if host \<noteq> [] \<and> last host = CHR '':'' then butlast host else host)"

definition url_Parse :: "string \<Rightarrow> URL" where
  "url_Parse rawURL =
     (let u = fst (cut CHR ''#'' rawURL);
          scheme = map asciiLower (fst (getScheme u));
          rest0 = snd (getScheme u);
          forceQuery = (rest0 \<noteq> [] \<and> last rest0 = CHR ''?'' \<and> count_list rest0 CHR ''?'' = 1);
          rest = (if forceQuery then butlast rest0 else fst (cut CHR ''?'' rest0));
          query = (if forceQuery then [] else snd (cut CHR ''?'' rest0))
      in if u = ''*'' then \<lparr>Scheme = [], Host = [], Path = ''*'', RawQuery = []\<rparr>
         else if scheme \<noteq> [] \<and> \<not> prefix ''/'' rest then
           \<lparr>Scheme = scheme, Host = [], Path = [], RawQuery = query\<rparr>
         else if (scheme \<noteq> [] \<or> \<not> prefix ''///'' rest) \<and> prefix ''//'' rest then
           \<lparr>Scheme = scheme,
            Host = removeEmptyPort
                     (unescape (afterLast CHR ''@'' (fst (cut CHR ''/'' (drop 2 rest))))),
            Path = unescape (dropWhile (\<lambda>c. c \<noteq> CHR ''/'') (drop 2 rest)),
            RawQuery = query\<rparr>
         else \<lparr>Scheme = scheme, Host = [], Path = unescape rest, RawQuery = query\<rparr>)"

record http_request =
  Method :: string
  ReqURL :: URL
  Header :: "(string \<times> string) list"
  ReqBody :: string

record http_response =
  StatusCode :: int
  Body :: string

text \<open>
  One call of \<open>httpClient.Do\<close>: the request sent and what came back, a transport
  error (\<open>Inl\<close>) or a response.
\<close>

type_synonym exchange = "http_request \<times> (string + http_response)"

text \<open>
  What lies outside the client: whether \<open>http.NewRequestWithContext\<close> refuses a method
  and a URL (which it is given as a string), how the transport answers a request after the exchanges so far,
  and the JSON decoder on the two response bodies the client reads (the \<open>access_token\<close>
  of a token response, the \<open>@graph\<close> array of a search response).
\<close>

record 'n env =
  newRequestErr :: "string \<Rightarrow> URL \<Rightarrow> string option"
  roundTrip :: "exchange list \<Rightarrow> http_request \<Rightarrow> string + http_response"
  decodeToken :: "string \<Rightarrow> string + string"
  decodeGraph :: "string \<Rightarrow> string + 'n list"

text \<open>
  A request body is an \<open>io.Reader\<close>; the callers pass a \<open>*bytes.Buffer\<close> or nil.
  \<open>None\<close> is the nil reader, \<open>Some b\<close> a buffer with the bytes \<open>b\<close> left to
  read. \<open>http.NewRequestWithContext\<close> takes the length and the content of a buffer
  from what is left in it (\<open>remaining\<close>), and sending the request reads the buffer to
  its end (\<open>drained\<close>). Closing response bodies is not modelled.
\<close>

definition remaining :: "string option \<Rightarrow> string" where
  "remaining body = (case body of None \<Rightarrow> [] | Some b \<Rightarrow> b)"

text \<open>
  The client passes \<open>reqURL.String()\<close> to \<open>http.NewRequestWithContext\<close>, which parses
  the string again: the request carries the parsed URL, not the URL the client built.
\<close>

definition NewRequest ::
  "'n env \<Rightarrow> string \<Rightarrow> URL \<Rightarrow> string option \<Rightarrow> string + http_request" where
  "NewRequest env method url body =
     (case newRequestErr env method url of
        Some e \<Rightarrow> Inl e
      | None \<Rightarrow>
          Inr \<lparr>Method = method, ReqURL = url_Parse (URL_String url), Header = [],
               ReqBody = remaining body\<rparr>)"

definition Header_Set :: "string \<Rightarrow> string \<Rightarrow> http_request \<Rightarrow> http_request" where
  "Header_Set k v req = req\<lparr>Header := AList.update k v (Header req)\<rparr>"

definition Do ::
  "'n env \<Rightarrow> http_request \<Rightarrow> exchange list \<Rightarrow> (string + http_response) \<times> exchange list" where
  "Do env req h = (roundTrip env h req, h @ [(req, roundTrip env h req)])"

definition drained :: "string option \<Rightarrow> string option" where
  "drained body = map_option (\<lambda>b. []) body"

section \<open>The client (client.go)\<close>

definition MaxAccessFailures :: nat where
  "MaxAccessFailures = 3"

definition ConceptURIPrefix :: string where
  "ConceptURIPrefix = ''http://www.ft.com/thing''"

definition MetadataFieldPrefix :: string where
  "MetadataFieldPrefix = ''http://www.ft.com/ontology''"

text \<open>The \<open>httpClient\<close> field is the transport of the environment.\<close>

record Client =
  baseAPIURL :: URL
  apiTokenURL :: URL
  apiKey :: string
  model :: string
  accessToken :: string

text \<open>
  \<open>getAccessToken\<close> sets a header on the new request before it looks at the error of
  \<open>NewRequestWithContext\<close>; when that call fails the request is nil and the method
  panics.
\<close>

definition getAccessToken ::
  "'n env \<Rightarrow> Client \<Rightarrow> exchange list \<Rightarrow> (error + string) \<times> exchange list" where
  "getAccessToken env c h =
     (let data = Values_Set ''key'' (apiKey c) (Values_Set ''grant_type'' ''apikey'' []) in
      case NewRequest env ''POST'' (apiTokenURL c) (Some (Values_Encode data)) of
        Inl e \<Rightarrow> (Inl (Panic ''invalid memory address or nil pointer dereference''), h)
      | Inr req0 \<Rightarrow>
          (let req = Header_Set ''Content-Type'' ''application/x-www-form-urlencoded'' req0 in
           case Do env req h of
             (Inl e, h') \<Rightarrow> (Inl (Error (''failed making access token request: '' @ e)), h')
           | (Inr resp, h') \<Rightarrow>
               if StatusCode resp \<noteq> 200 then
                 (Inl (Error (''access token request returned http status ''
                              @ itoa (StatusCode resp))), h')
               else
                 (case decodeToken env (Body resp) of
                    Inl e \<Rightarrow>
                      (Inl (Error (''failed decoding access token in response body: '' @ e)), h')
                  | Inr tok \<Rightarrow> (Inr tok, h'))))"

text \<open>
  The loop of \<open>makeAuthorizedRequest\<close>, from the value of \<open>accessFailures\<close> on. The
  same reader is passed to every attempt.
\<close>

function makeAuthorizedRequest_from ::
  "'n env \<Rightarrow> string \<Rightarrow> URL \<Rightarrow> string option \<Rightarrow> nat \<Rightarrow> Client \<Rightarrow> exchange list
     \<Rightarrow> (error + http_response) \<times> Client \<times> exchange list" where
  "makeAuthorizedRequest_from env method url body accessFailures c h =
     (if accessFailures < MaxAccessFailures then
        (case NewRequest env method url body of
           Inl e \<Rightarrow> (Inl (Error (''failed creating authorized request: '' @ e)), c, h)
         | Inr req0 \<Rightarrow>
             (let req = Header_Set ''Content-Type'' ''application/ld+json''
                          (Header_Set ''Authorization'' (''Bearer '' @ accessToken c) req0) in
              case Do env req h of
                (Inl e, h1) \<Rightarrow>
                  (Inl (Error (''failed making authorized request: '' @ e)), c, h1)
              | (Inr resp, h1) \<Rightarrow>
                  if StatusCode resp = 401 then
                    (case getAccessToken env c h1 of
                       (Inl (Panic p), h2) \<Rightarrow> (Inl (Panic p), c, h2)
                     | (Inl (Error e), h2) \<Rightarrow>
                         (Inl (Error ''failed making request with valid access token''), c, h2)
                     | (Inr tok, h2) \<Rightarrow>
                         makeAuthorizedRequest_from env method url (drained body)
                           (accessFailures + 1) (c\<lparr>accessToken := tok\<rparr>) h2)
                  else (Inr resp, c, h1)))
      else (Inl (Error ''failed making request with valid access token''), c, h))"
  by pat_completeness auto
termination
  by (relation "measure (\<lambda>(env, method, url, body, accessFailures, c, h).
        MaxAccessFailures - accessFailures)") auto

declare makeAuthorizedRequest_from.simps [simp del]

definition makeAuthorizedRequest ::
  "'n env \<Rightarrow> string \<Rightarrow> URL \<Rightarrow> string option \<Rightarrow> Client \<Rightarrow> exchange list
     \<Rightarrow> (error + http_response) \<times> Client \<times> exchange list" where
  "makeAuthorizedRequest env method url body c h =
     makeAuthorizedRequest_from env method url body 0 c h"

definition NewClient ::
  "'n env \<Rightarrow> URL \<Rightarrow> string \<Rightarrow> string \<Rightarrow> string \<Rightarrow> exchange list
     \<Rightarrow> (error + Client) \<times> exchange list" where
  "NewClient env baseCloudURL clientID key mdl h =
     (let client =
        \<lparr>baseAPIURL =
           baseCloudURL\<lparr>Path := path_Join [Path baseCloudURL, ''/sw/client/'' @ clientID @ ''/api'']\<rparr>,
         apiTokenURL = baseCloudURL\<lparr>Path := path_Join [Path baseCloudURL, ''token'']\<rparr>,
         apiKey = key, model = mdl, accessToken = []\<rparr>
      in case getAccessToken env client h of
           (Inl e, h') \<Rightarrow> (Inl e, h')
         | (Inr tok, h') \<Rightarrow> (Inr (client\<lparr>accessToken := tok\<rparr>), h'))"

text \<open>
  \<open>json.Marshal\<close> of a \<open>Concept\<close> calls its \<open>MarshalJSON\<close> and compacts the result,
  which changes nothing in bytes the encoder itself wrote.
\<close>

definition CreateConcept ::
  "'n env \<Rightarrow> Client \<Rightarrow> Concept \<Rightarrow> string \<Rightarrow> exchange list
     \<Rightarrow> error option \<times> Client \<times> exchange list" where
  "CreateConcept env c concept task h =
     (if PrefLabel concept = [] then
        (Some (Error ''input concept should have prefLaber defined''), c, h)
      else if SchemaObject concept = [] \<and> Broader concept = [] then
        (Some (Error ''input concept should have either schema or broader relation defined''),
         c, h)
      else if Type concept = [] then
        (Some (Error ''input concept should have type defined''), c, h)
      else
        (let path = ''task:'' @ model c @ '':'' @ task @ ''/skos:Concept/rdf:instance'';
             reqURL = (baseAPIURL c)\<lparr>RawQuery := ''path='' @ path\<rparr>
         in case MarshalJSON concept of
              Inl (Panic p) \<Rightarrow> (Some (Panic p), c, h)
            | Inl (Error e) \<Rightarrow> (Some (Error (''failed json encoding concept: '' @ e)), c, h)
            | Inr body \<Rightarrow>
                (case makeAuthorizedRequest env ''POST'' reqURL (Some body) c h of
                   (Inl (Panic p), c', h') \<Rightarrow> (Some (Panic p), c', h')
                 | (Inl (Error e), c', h') \<Rightarrow>
                     (Some (Error (''failed creating new concept: '' @ e)), c', h')
                 | (Inr resp, c', h') \<Rightarrow>
                     if StatusCode resp \<noteq> 200 \<and> StatusCode resp \<noteq> 201 then
                       (Some (Error (''failed creating new concept, returned status ''
                                     @ itoa (StatusCode resp))), c', h')
                     else (None, c', h'))))"

definition AddConceptMetadataField ::
  "'n env \<Rightarrow> Client \<Rightarrow> string \<Rightarrow> string \<Rightarrow> string \<Rightarrow> string \<Rightarrow> exchange list
     \<Rightarrow> error option \<times> Client \<times> exchange list" where
  "AddConceptMetadataField env c conceptID fieldName fieldValue task h =
     (let conceptURI = ConceptURIPrefix @ ''/'' @ conceptID;
          encodedConceptURI = QueryEscape (QueryEscape (''<'' @ conceptURI @ ''>''));
          path = ''task:'' @ model c @ '':'' @ task @ ''/'' @ encodedConceptURI;
          reqURL = (baseAPIURL c)\<lparr>RawQuery := ''path='' @ path\<rparr>;
          fieldURI = MetadataFieldPrefix @ ''/'' @ fieldName;
          bodyMap = AList.update fieldURI fieldValue (AList.update ''@id'' conceptURI [])
      in case json_Marshal (stringMap_json bodyMap) of
           Inl (Panic p) \<Rightarrow> (Some (Panic p), c, h)
         | Inl (Error e) \<Rightarrow> (Some (Error (''failed encoding metadata body: '' @ e)), c, h)
         | Inr body \<Rightarrow>
             (case makeAuthorizedRequest env ''POST'' reqURL (Some body) c h of
                (Inl (Panic p), c', h') \<Rightarrow> (Some (Panic p), c', h')
              | (Inl (Error e), c', h') \<Rightarrow>
                  (Some (Error (''failed adding metadata to concept '' @ conceptID @ '': '' @ e)),
                   c', h')
              | (Inr resp, c', h') \<Rightarrow>
                  if StatusCode resp \<noteq> 200 \<and> StatusCode resp \<noteq> 201 then
                    (Some (Error (''failed adding metadata to concept '' @ conceptID
                                  @ '', returned status '' @ itoa (StatusCode resp))), c', h')
                  else (None, c', h')))"

definition GetConceptsWithCustomMetadata ::
  "'n env \<Rightarrow> Client \<Rightarrow> string \<Rightarrow> string \<Rightarrow> string \<Rightarrow> exchange list
     \<Rightarrow> (error + 'n list) \<times> Client \<times> exchange list" where
  "GetConceptsWithCustomMetadata env c task fld val h =
     (let params =
            Values_Add ''filters'' (''subject(<'' @ fld @ ''>='' @ [dquote] @ val @ [dquote] @ '')'')
              (Values_Add ''properties'' ''rdf:type,meta:displayName,[]''
                 (Values_Add ''path''
                    (path_Join [''task:'' @ model c @ '':'' @ task, ''skos:Concept'',
                                ''meta:transitiveInstance''])
                    []));
          reqURL = (baseAPIURL c)\<lparr>RawQuery := Values_Encode params\<rparr>
      in case makeAuthorizedRequest env ''GET'' reqURL None c h of
           (Inl (Panic p), c', h') \<Rightarrow> (Inl (Panic p), c', h')
         | (Inl (Error e), c', h') \<Rightarrow>
             (Inl (Error (''failed to make search request: '' @ e)), c', h')
         | (Inr resp, c', h') \<Rightarrow>
             (case decodeGraph env (Body resp) of
                Inl e \<Rightarrow> (Inl (Error (''failed to read search response: '' @ e)), c', h')
              | Inr graph \<Rightarrow> (Inr graph, c', h')))"

section \<open>Vocabulary of the properties\<close>

text \<open>A concept with only the three required fields set.\<close>

definition minimalConcept :: "string \<Rightarrow> string \<Rightarrow> string \<Rightarrow> Concept" where
  "minimalConcept l t s =
     \<lparr>PrefLabel = l, AltLabels = [], Description = [], Type = t, SchemaObject = s,
      Broader = [], TMEIdentifier = [], FactsetIdentifier = [], WikidataIdentifier = [],
      IsDeprecated = False\<rparr>"

text \<open>The members of the document that \<open>MarshalJSON\<close> writes for a concept.\<close>

definition wireMembers :: "Concept \<Rightarrow> (string \<times> json) list" where
  "wireMembers c = inputConcept_members (toInput c)"

text \<open>The bytes of one member of an object, and the bytes of the object of one label.\<close>

definition memberBytes :: "string \<times> json \<Rightarrow> string" where
  "memberBytes m = encodeString (fst m) @ '':'' @ render (snd m)"

definition labelBytes :: "string \<Rightarrow> string" where
  \<open>labelBytes s =
     ''{"skosxl:literalForm":[{"@value":'' @ encodeString s
     @ '',"@language":"en"}],"@type":["skosxl:Label"]}''\<close>

text \<open>
  The request \<open>getAccessToken\<close> sends for a token URL and an API key, and an attempt
  of an authorized request for a method, the URL the client built, a token and body bytes.
\<close>

definition tokenRequest :: "URL \<Rightarrow> string \<Rightarrow> http_request" where
  "tokenRequest url key =
     \<lparr>Method = ''POST'', ReqURL = url_Parse (URL_String url),
      Header = [(''Content-Type'', ''application/x-www-form-urlencoded'')],
      ReqBody = ''grant_type=apikey&key='' @ QueryEscape key\<rparr>"

definition authorizedRequest :: "string \<Rightarrow> URL \<Rightarrow> string \<Rightarrow> string \<Rightarrow> http_request" where
  "authorizedRequest method url token bytes =
     \<lparr>Method = method, ReqURL = url_Parse (URL_String url),
      Header = [(''Authorization'', ''Bearer '' @ token),
                (''Content-Type'', ''application/ld+json'')],
      ReqBody = bytes\<rparr>"

text \<open>
  The access tokens that the token exchanges among the given exchanges return, in order:
  an exchange counts when its request is the token request, its status is 200 and its
  body decodes.
\<close>

fun exchangedTokens :: "'n env \<Rightarrow> http_request \<Rightarrow> exchange list \<Rightarrow> string list" where
  "exchangedTokens env treq [] = []"
| "exchangedTokens env treq (e # es) =
     (case snd e of
        Inl err \<Rightarrow> []
      | Inr resp \<Rightarrow>
          if fst e = treq \<and> StatusCode resp = 200 then
            (case decodeToken env (Body resp) of Inl err \<Rightarrow> [] | Inr tok \<Rightarrow> [tok])
          else [])
     @ exchangedTokens env treq es"

definition unauthorized :: "exchange \<Rightarrow> bool" where
  "unauthorized e = (case snd e of Inl err \<Rightarrow> False | Inr resp \<Rightarrow> StatusCode resp = 401)"

section \<open>The fixtures of the client tests\<close>

text \<open>
  The test server answers the token request with \<open>{"access_token":"test_token"}\<close>
  (\<open>handleTokenRequest\<close>) and the n-th other request with \<open>answer n\<close>. The decoders
  of the test environment agree with \<open>encoding/json\<close> on the bodies this server sends:
  the token body, an empty graph document, and the empty body, on which decoding fails
  with \<open>EOF\<close>.
\<close>

definition testServerURL :: URL where
  "testServerURL = \<lparr>Scheme = ''http'', Host = ''127.0.0.1'', Path = [], RawQuery = []\<rparr>"

definition tokenBody :: string where
  \<open>tokenBody = ''{"access_token":"test_token"}''\<close>

definition graphBody :: string where
  \<open>graphBody = ''{"@graph":[]}''\<close>

definition testDecodeToken :: "string \<Rightarrow> string + string" where
  "testDecodeToken b = (if b = tokenBody then Inr ''test_token'' else Inl ''EOF'')"

definition testDecodeGraph :: "string \<Rightarrow> string + json list" where
  "testDecodeGraph b = (if b = graphBody then Inr [] else Inl ''EOF'')"

definition testServer ::
  "http_request \<Rightarrow> (nat \<Rightarrow> http_response) \<Rightarrow> exchange list \<Rightarrow> http_request
     \<Rightarrow> string + http_response" where
  "testServer treq answer h r =
     (if r = treq then Inr \<lparr>StatusCode = 200, Body = tokenBody\<rparr>
      else Inr (answer (length (filter (\<lambda>e. fst e \<noteq> treq) h))))"

definition testEnv :: "http_request \<Rightarrow> (nat \<Rightarrow> http_response) \<Rightarrow> json env" where
  "testEnv treq answer =
     \<lparr>newRequestErr = (\<lambda>m u. None), roundTrip = testServer treq answer,
      decodeToken = testDecodeToken, decodeGraph = testDecodeGraph\<rparr>"

text \<open>
  The client that \<open>NewClient\<close> builds for "testClientID", "testAPIKey", "testModel",
  holding a token that the server no longer accepts.
\<close>

definition testClient :: Client where
  "testClient =
     \<lparr>baseAPIURL = testServerURL\<lparr>Path := ''/sw/client/testClientID/api''\<rparr>,
      apiTokenURL = testServerURL\<lparr>Path := ''token''\<rparr>,
      apiKey = ''testAPIKey'', model = ''testModel'', accessToken = ''expired_token''\<rparr>"

definition testTokenRequest :: http_request where
  "testTokenRequest = tokenRequest (apiTokenURL testClient) (apiKey testClient)"

definition status :: "int \<Rightarrow> string \<Rightarrow> nat \<Rightarrow> http_response" where
  "status code body n = \<lparr>StatusCode = code, Body = body\<rparr>"

definition unauthorizedOnce :: "nat \<Rightarrow> http_response" where
  "unauthorizedOnce n =
     (if n = 0 then \<lparr>StatusCode = 401, Body = []\<rparr> else \<lparr>StatusCode = 200, Body = []\<rparr>)"

definition deprecatedConcept :: Concept where
  "deprecatedConcept =
     (minimalConcept ''Test Deprecated Person'' ''http://www.ft.com/ontology/person/Person''
        ''http://www.ft.com/thing/ConceptScheme/8e564c83-669c-48d5-a208-81fb88a32802'')
       \<lparr>IsDeprecated := True\<rparr>"

section \<open>Serialization of a concept\<close>

lemma MarshalJSON_render: "MarshalJSON c = Inr (render (JObject (wireMembers c)))"
  by (simp add: MarshalJSON_def json_Marshal_def inputConcept_json_def wireMembers_def)

lemma wireMembers_eq:
  "wireMembers c =
     [(''skosxl:prefLabel'', JArray [conceptLabel_json (label (PrefLabel c))])]
   @ (if AltLabels c = [] then []
      else [(''skosxl:altLabel'', JArray (map conceptLabel_json (map label (AltLabels c))))])
   @ (if Description c = [] then []
      else [(''http://www.ft.com/ontology/description'',
             JArray [wordValue_json
                      \<lparr>wordValue_Value = Description c, wordValue_Language = ''en''\<rparr>])])
   @ [(''@type'', JArray [JString ''skos:Concept'', JString (Type c)]),
      (''skos:topConceptOf'', JObject [(''@id'', JString (SchemaObject c))])]
   @ (if TMEIdentifier c = [] then []
      else [(''http://www.ft.com/ontology/TMEIdentifier'',
             JArray [conceptValue_json \<lparr>conceptValue_Value = TMEIdentifier c\<rparr>])])
   @ (if FactsetIdentifier c = [] then []
      else [(''http://www.ft.com/ontology/factsetIdentifier'',
             JArray [conceptValue_json \<lparr>conceptValue_Value = FactsetIdentifier c\<rparr>])])
   @ (if WikidataIdentifier c = [] then []
      else [(''http://www.ft.com/ontology/wikidataIdentifier'',
             JArray [uriValue_json
                      \<lparr>uriValue_Value = WikidataIdentifier c, uriValue_Type = ''xsd:anyURI''\<rparr>])])
   @ (if IsDeprecated c then [(''http://www.ft.com/ontology/isDeprecated'', JArray [JBool True])]
      else [])"
  by (simp add: wireMembers_def inputConcept_members_def toInput_def omitempty_def slice_def
      conceptID_json_def field_def)

lemma wireMembers_keys:
  "map fst (wireMembers c) =
     [''skosxl:prefLabel'']
   @ (if AltLabels c = [] then [] else [''skosxl:altLabel''])
   @ (if Description c = [] then [] else [''http://www.ft.com/ontology/description''])
   @ [''@type'', ''skos:topConceptOf'']
   @ (if TMEIdentifier c = [] then [] else [''http://www.ft.com/ontology/TMEIdentifier''])
   @ (if FactsetIdentifier c = [] then [] else [''http://www.ft.com/ontology/factsetIdentifier''])
   @ (if WikidataIdentifier c = [] then []
      else [''http://www.ft.com/ontology/wikidataIdentifier''])
   @ (if IsDeprecated c then [''http://www.ft.com/ontology/isDeprecated''] else [])"
  by (simp add: wireMembers_eq)

lemma wireMembers_distinct: "distinct (map fst (wireMembers c))"
  unfolding wireMembers_keys by simp

lemma wireMembers_key_iff:
  "''skosxl:altLabel'' \<in> set (map fst (wireMembers c)) \<longleftrightarrow> AltLabels c \<noteq> []"
  "''http://www.ft.com/ontology/description'' \<in> set (map fst (wireMembers c))
     \<longleftrightarrow> Description c \<noteq> []"
  "''http://www.ft.com/ontology/TMEIdentifier'' \<in> set (map fst (wireMembers c))
     \<longleftrightarrow> TMEIdentifier c \<noteq> []"
  "''http://www.ft.com/ontology/factsetIdentifier'' \<in> set (map fst (wireMembers c))
     \<longleftrightarrow> FactsetIdentifier c \<noteq> []"
  "''http://www.ft.com/ontology/wikidataIdentifier'' \<in> set (map fst (wireMembers c))
     \<longleftrightarrow> WikidataIdentifier c \<noteq> []"
  "''http://www.ft.com/ontology/isDeprecated'' \<in> set (map fst (wireMembers c))
     \<longleftrightarrow> IsDeprecated c"
  unfolding wireMembers_keys by simp_all

lemma wireMembers_deprecated:
  "IsDeprecated c \<Longrightarrow>
   map_of (wireMembers c) ''http://www.ft.com/ontology/isDeprecated'' = Some (JArray [JBool True])"
  unfolding wireMembers_eq by simp

lemma wireMembers_scheme:
  "map_of (wireMembers c) ''skos:topConceptOf'' = Some (JObject [(''@id'', JString (SchemaObject c))])"
  unfolding wireMembers_eq by simp

lemma wireMembers_scheme_member:
  "(''skos:topConceptOf'', JObject [(''@id'', JString (SchemaObject c))]) \<in> set (wireMembers c)"
  unfolding wireMembers_eq by simp

lemma wireMembers_nonempty:
  "m \<in> set (wireMembers c) \<Longrightarrow> snd m \<noteq> JNull \<and> snd m \<noteq> JArray [] \<and> snd m \<noteq> JObject []"
  unfolding wireMembers_eq by (auto split: if_splits)

lemma join_cons: "join sep (x # xs) = x @ concat (map (\<lambda>y. sep @ y) xs)"
  by (induction xs arbitrary: x) simp_all

lemma render_object:
  "render (JObject (m # ms)) =
     ''{'' @ memberBytes m @ concat (map (\<lambda>m. '','' @ memberBytes m) ms) @ ''}''"
proof -
  have f: "(\<lambda>m. encodeString (fst m) @ '':'' @ render (snd m)) = memberBytes"
    by (rule ext) (simp add: memberBytes_def)
  have "render (JObject (m # ms)) = ''{'' @ join '','' (map memberBytes (m # ms)) @ ''}''"
    unfolding render.simps f by (rule refl)
  then show ?thesis
    by (simp add: join_cons comp_def)
qed

lemma encodeString_literals:
  \<open>encodeString ''@value'' = ''"@value"''\<close>
  \<open>encodeString ''@language'' = ''"@language"''\<close>
  \<open>encodeString ''@type'' = ''"@type"''\<close>
  \<open>encodeString ''@id'' = ''"@id"''\<close>
  \<open>encodeString ''en'' = ''"en"''\<close>
  \<open>encodeString ''skosxl:literalForm'' = ''"skosxl:literalForm"''\<close>
  \<open>encodeString ''skosxl:Label'' = ''"skosxl:Label"''\<close>
  \<open>encodeString ''skosxl:prefLabel'' = ''"skosxl:prefLabel"''\<close>
  \<open>encodeString ''skosxl:altLabel'' = ''"skosxl:altLabel"''\<close>
  \<open>encodeString ''skos:Concept'' = ''"skos:Concept"''\<close>
  \<open>encodeString ''skos:topConceptOf'' = ''"skos:topConceptOf"''\<close>
  \<open>encodeString ''xsd:anyURI'' = ''"xsd:anyURI"''\<close>
  \<open>encodeString ''http://www.ft.com/ontology/description'' =
     ''"http://www.ft.com/ontology/description"''\<close>
  \<open>encodeString ''http://www.ft.com/ontology/TMEIdentifier'' =
     ''"http://www.ft.com/ontology/TMEIdentifier"''\<close>
  \<open>encodeString ''http://www.ft.com/ontology/factsetIdentifier'' =
     ''"http://www.ft.com/ontology/factsetIdentifier"''\<close>
  \<open>encodeString ''http://www.ft.com/ontology/wikidataIdentifier'' =
     ''"http://www.ft.com/ontology/wikidataIdentifier"''\<close>
  \<open>encodeString ''http://www.ft.com/ontology/isDeprecated'' =
     ''"http://www.ft.com/ontology/isDeprecated"''\<close>
  by code_simp+

lemma render_label: "render (conceptLabel_json (label s)) = labelBytes s"
  by (simp add: conceptLabel_json_def label_def omitempty_def slice_def wordValue_json_def
      field_def encodeString_literals labelBytes_def)

lemma render_labels:
  "render (JArray (map conceptLabel_json (map label ls))) =
     ''['' @ join '','' (map labelBytes ls) @ '']''"
  by (simp add: comp_def render_label)

lemma member_prefLabel:
  \<open>memberBytes (''skosxl:prefLabel'', JArray [conceptLabel_json (label s)]) =
     ''"skosxl:prefLabel":['' @ labelBytes s @ '']''\<close>
  by (simp add: memberBytes_def encodeString_literals render_label)

lemma member_altLabel:
  \<open>memberBytes (''skosxl:altLabel'', JArray (map conceptLabel_json (map label ls))) =
     ''"skosxl:altLabel":['' @ join '','' (map labelBytes ls) @ '']''\<close>
  unfolding memberBytes_def fst_conv snd_conv render_labels
  by (simp add: encodeString_literals)

lemma member_description:
  \<open>memberBytes (''http://www.ft.com/ontology/description'',
       JArray [wordValue_json \<lparr>wordValue_Value = d, wordValue_Language = ''en''\<rparr>]) =
     ''"http://www.ft.com/ontology/description":[{"@value":'' @ encodeString d
     @ '',"@language":"en"}]''\<close>
  by (simp add: memberBytes_def encodeString_literals wordValue_json_def field_def omitempty_def)

lemma member_type:
  \<open>memberBytes (''@type'', JArray [JString ''skos:Concept'', JString t]) =
     ''"@type":["skos:Concept",'' @ encodeString t @ '']''\<close>
  by (simp add: memberBytes_def encodeString_literals)

lemma member_scheme:
  \<open>memberBytes (''skos:topConceptOf'', JObject [(''@id'', JString s)]) =
     ''"skos:topConceptOf":{"@id":'' @ encodeString s @ ''}''\<close>
  by (simp add: memberBytes_def encodeString_literals)

lemma member_TME:
  \<open>memberBytes (''http://www.ft.com/ontology/TMEIdentifier'',
       JArray [conceptValue_json \<lparr>conceptValue_Value = v\<rparr>]) =
     ''"http://www.ft.com/ontology/TMEIdentifier":[{"@value":'' @ encodeString v @ ''}]''\<close>
  by (simp add: memberBytes_def encodeString_literals conceptValue_json_def field_def)

lemma member_factset:
  \<open>memberBytes (''http://www.ft.com/ontology/factsetIdentifier'',
       JArray [conceptValue_json \<lparr>conceptValue_Value = v\<rparr>]) =
     ''"http://www.ft.com/ontology/factsetIdentifier":[{"@value":'' @ encodeString v @ ''}]''\<close>
  by (simp add: memberBytes_def encodeString_literals conceptValue_json_def field_def)

lemma member_wikidata:
  \<open>memberBytes (''http://www.ft.com/ontology/wikidataIdentifier'',
       JArray [uriValue_json \<lparr>uriValue_Value = v, uriValue_Type = ''xsd:anyURI''\<rparr>]) =
     ''"http://www.ft.com/ontology/wikidataIdentifier":[{"@value":'' @ encodeString v
     @ '',"@type":"xsd:anyURI"}]''\<close>
  by (simp add: memberBytes_def encodeString_literals uriValue_json_def field_def)

lemma member_deprecated:
  \<open>memberBytes (''http://www.ft.com/ontology/isDeprecated'', JArray [JBool True]) =
     ''"http://www.ft.com/ontology/isDeprecated":[true]''\<close>
  by (simp add: memberBytes_def encodeString_literals)

lemmas member_bytes =
  member_prefLabel member_altLabel member_description member_type member_scheme member_TME
  member_factset member_wikidata member_deprecated

text \<open>
  The bytes that are written for a concept: the members in their fixed order, the member
  of an optional field only when the field is not empty.
\<close>

lemma MarshalJSON_bytes:
  \<open>MarshalJSON c = Inr (
       ''{"skosxl:prefLabel":['' @ labelBytes (PrefLabel c) @ '']''
     @ (if AltLabels c = [] then []
        else '',"skosxl:altLabel":['' @ join '','' (map labelBytes (AltLabels c)) @ '']'')
     @ (if Description c = [] then []
        else '',"http://www.ft.com/ontology/description":[{"@value":''
             @ encodeString (Description c) @ '',"@language":"en"}]'')
     @ '',"@type":["skos:Concept",'' @ encodeString (Type c) @ '']''
     @ '',"skos:topConceptOf":{"@id":'' @ encodeString (SchemaObject c) @ ''}''
     @ (if TMEIdentifier c = [] then []
        else '',"http://www.ft.com/ontology/TMEIdentifier":[{"@value":''
             @ encodeString (TMEIdentifier c) @ ''}]'')
     @ (if FactsetIdentifier c = [] then []
        else '',"http://www.ft.com/ontology/factsetIdentifier":[{"@value":''
             @ encodeString (FactsetIdentifier c) @ ''}]'')
     @ (if WikidataIdentifier c = [] then []
        else '',"http://www.ft.com/ontology/wikidataIdentifier":[{"@value":''
             @ encodeString (WikidataIdentifier c) @ '',"@type":"xsd:anyURI"}]'')
     @ (if IsDeprecated c then '',"http://www.ft.com/ontology/isDeprecated":[true]'' else [])
     @ ''}'')\<close>
  unfolding MarshalJSON_render wireMembers_eq
  apply (simp only: append_Cons append_Nil render_object)
  apply (simp add: member_bytes del: map_map)
  done

text \<open>
  C1. The concept with PrefLabel "Test Pref Label", Type "Test Type", SchemaObject
  "Test Concept Schema" and every other field unset is serialized to exactly the bytes
  below, without an error.
\<close>

theorem MarshalJSON_test_concept:
  \<open>MarshalJSON (minimalConcept ''Test Pref Label'' ''Test Type'' ''Test Concept Schema'') =
     Inr ''{"skosxl:prefLabel":[{"skosxl:literalForm":[{"@value":"Test Pref Label","@language":"en"}],"@type":["skosxl:Label"]}],"@type":["skos:Concept","Test Type"],"skos:topConceptOf":{"@id":"Test Concept Schema"}}''\<close>
  by code_simp

text \<open>
  C4. For every concept, the bytes that are serialized are the rendering of a document
  whose keys are distinct and which has the keys of AltLabels, Description, TMEIdentifier,
  FactsetIdentifier and WikidataIdentifier exactly when the field is not empty; no member
  of the document is null or an empty container; the key
  \<open>http://www.ft.com/ontology/isDeprecated\<close> is absent when IsDeprecated is false and
  present with the value \<open>[true]\<close> when it is true. Byte for byte: the output is the
  required members followed, for each optional field that is not empty, by its member and
  nothing else, and when IsDeprecated is true it ends with
  \<open>,"http://www.ft.com/ontology/isDeprecated":[true]}\<close>.
\<close>

theorem MarshalJSON_optional_keys:
  \<open>MarshalJSON c = Inr (render (JObject (wireMembers c)))
   \<and> distinct (map fst (wireMembers c))
   \<and> (''skosxl:altLabel'' \<in> set (map fst (wireMembers c)) \<longleftrightarrow> AltLabels c \<noteq> [])
   \<and> (''http://www.ft.com/ontology/description'' \<in> set (map fst (wireMembers c))
        \<longleftrightarrow> Description c \<noteq> [])
   \<and> (''http://www.ft.com/ontology/TMEIdentifier'' \<in> set (map fst (wireMembers c))
        \<longleftrightarrow> TMEIdentifier c \<noteq> [])
   \<and> (''http://www.ft.com/ontology/factsetIdentifier'' \<in> set (map fst (wireMembers c))
        \<longleftrightarrow> FactsetIdentifier c \<noteq> [])
   \<and> (''http://www.ft.com/ontology/wikidataIdentifier'' \<in> set (map fst (wireMembers c))
        \<longleftrightarrow> WikidataIdentifier c \<noteq> [])
   \<and> (''http://www.ft.com/ontology/isDeprecated'' \<in> set (map fst (wireMembers c))
        \<longleftrightarrow> IsDeprecated c)
   \<and> (IsDeprecated c \<longrightarrow>
        map_of (wireMembers c) ''http://www.ft.com/ontology/isDeprecated''
          = Some (JArray [JBool True]))
   \<and> (\<forall>m \<in> set (wireMembers c). snd m \<noteq> JNull \<and> snd m \<noteq> JArray [] \<and> snd m \<noteq> JObject [])
   \<and> MarshalJSON c = Inr (
         ''{"skosxl:prefLabel":['' @ labelBytes (PrefLabel c) @ '']''
       @ (if AltLabels c = [] then []
          else '',"skosxl:altLabel":['' @ join '','' (map labelBytes (AltLabels c)) @ '']'')
       @ (if Description c = [] then []
          else '',"http://www.ft.com/ontology/description":[{"@value":''
               @ encodeString (Description c) @ '',"@language":"en"}]'')
       @ '',"@type":["skos:Concept",'' @ encodeString (Type c) @ '']''
       @ '',"skos:topConceptOf":{"@id":'' @ encodeString (SchemaObject c) @ ''}''
       @ (if TMEIdentifier c = [] then []
          else '',"http://www.ft.com/ontology/TMEIdentifier":[{"@value":''
               @ encodeString (TMEIdentifier c) @ ''}]'')
       @ (if FactsetIdentifier c = [] then []
          else '',"http://www.ft.com/ontology/factsetIdentifier":[{"@value":''
               @ encodeString (FactsetIdentifier c) @ ''}]'')
       @ (if WikidataIdentifier c = [] then []
          else '',"http://www.ft.com/ontology/wikidataIdentifier":[{"@value":''
               @ encodeString (WikidataIdentifier c) @ '',"@type":"xsd:anyURI"}]'')
       @ (if IsDeprecated c then '',"http://www.ft.com/ontology/isDeprecated":[true]'' else [])
       @ ''}'')
   \<and> (IsDeprecated c \<longrightarrow>
        (\<exists>pre. MarshalJSON c =
                 Inr (pre @ '',"http://www.ft.com/ontology/isDeprecated":[true]}'')))\<close>
proof -
  have tail: \<open>\<exists>pre. MarshalJSON c =
                 Inr (pre @ '',"http://www.ft.com/ontology/isDeprecated":[true]}'')\<close>
    if dep: "IsDeprecated c"
  proof -
    have e: \<open>'',"http://www.ft.com/ontology/isDeprecated":[true]'' @ ''}'' =
               '',"http://www.ft.com/ontology/isDeprecated":[true]}''\<close>
      by simp
    have \<open>\<exists>pre. MarshalJSON c =
            Inr (pre @ '',"http://www.ft.com/ontology/isDeprecated":[true]'' @ ''}'')\<close>
      unfolding MarshalJSON_bytes[of c]
      apply (simp only: dep if_True sum.inject)
      apply (fold suffix_def)
      apply (rule suffix_order.refl | rule suffix_appendI)+
      done
    then show ?thesis
      by (simp only: e)
  qed
  show ?thesis
    using MarshalJSON_render[of c] wireMembers_distinct[of c] wireMembers_key_iff[of c]
      wireMembers_deprecated[of c] wireMembers_nonempty[of _ c] MarshalJSON_bytes[of c] tail
    by blast
qed

theorem MarshalJSON_optional_keys_witness:
  \<open>IsDeprecated deprecatedConcept
   \<and> map_of (wireMembers deprecatedConcept) ''http://www.ft.com/ontology/isDeprecated''
       = Some (JArray [JBool True])
   \<and> (''@type'', JArray [JString ''skos:Concept'',
                          JString ''http://www.ft.com/ontology/person/Person''])
       \<in> set (wireMembers deprecatedConcept)
   \<and> JArray [JString ''skos:Concept'', JString ''http://www.ft.com/ontology/person/Person'']
       \<noteq> JNull
   \<and> ''skosxl:altLabel'' \<notin> set (map fst (wireMembers deprecatedConcept))
   \<and> (\<exists>pre. MarshalJSON deprecatedConcept =
               Inr (pre @ '',"http://www.ft.com/ontology/isDeprecated":[true]}''))\<close>
proof -
  have d: "IsDeprecated deprecatedConcept" "AltLabels deprecatedConcept = []"
    by (simp_all add: deprecatedConcept_def minimalConcept_def)
  have m: "(''@type'', JArray [JString ''skos:Concept'',
                               JString ''http://www.ft.com/ontology/person/Person''])
       \<in> set (wireMembers deprecatedConcept)"
    by (simp add: wireMembers_eq) (simp add: deprecatedConcept_def minimalConcept_def)
  from MarshalJSON_optional_keys[of deprecatedConcept]
  have dep: "IsDeprecated deprecatedConcept \<longrightarrow>
        map_of (wireMembers deprecatedConcept) ''http://www.ft.com/ontology/isDeprecated''
          = Some (JArray [JBool True])"
    and alt: "''skosxl:altLabel'' \<in> set (map fst (wireMembers deprecatedConcept))
        \<longleftrightarrow> AltLabels deprecatedConcept \<noteq> []"
    and bytes: \<open>IsDeprecated deprecatedConcept \<longrightarrow>
        (\<exists>pre. MarshalJSON deprecatedConcept =
                 Inr (pre @ '',"http://www.ft.com/ontology/isDeprecated":[true]}''))\<close>
    by blast+
  show ?thesis
    using dep alt bytes d m by simp
qed

lemma join_member: "x \<in> set xs \<Longrightarrow> \<exists>a b. join sep xs = a @ x @ b"
proof (induction sep xs rule: join.induct)
  case (1 sep)
  then show ?case by simp
next
  case (2 sep y)
  then have "join sep [y] = [] @ x @ []" by simp
  then show ?case by blast
next
  case (3 sep y z zs)
  show ?case
  proof (cases "x = y")
    case True
    then have "join sep (y # z # zs) = [] @ x @ (sep @ join sep (z # zs))" by simp
    then show ?thesis by blast
  next
    case False
    with 3 obtain a b where "join sep (z # zs) = a @ x @ b" by auto
    then have "join sep (y # z # zs) = (y @ sep @ a) @ x @ b" by simp
    then show ?thesis by blast
  qed
qed

lemma render_member:
  assumes "m \<in> set ms"
  shows "\<exists>pre post. render (JObject ms) = pre @ (encodeString (fst m) @ '':'' @ render (snd m)) @ post"
proof -
  let ?f = "\<lambda>m. encodeString (fst m) @ '':'' @ render (snd m)"
  have "?f m \<in> set (map ?f ms)" using assms by simp
  then obtain a b where "join '','' (map ?f ms) = a @ ?f m @ b"
    using join_member by blast
  then have "render (JObject ms) = (''{'' @ a) @ ?f m @ (b @ ''}'')" by simp
  then show ?thesis by blast
qed

lemma render_empty_scheme:
  \<open>encodeString ''skos:topConceptOf'' @ '':'' @ render (JObject [(''@id'', JString [])]) =
     ''"skos:topConceptOf":{"@id":""}''\<close>
  by code_simp

text \<open>
  C9. Serialization returns no error for any concept, and for a concept whose SchemaObject
  is empty the document still has the member \<open>skos:topConceptOf\<close>, an object whose
  \<open>@id\<close> is the empty string: the bytes contain \<open>"skos:topConceptOf":{"@id":""}\<close>.
\<close>

theorem MarshalJSON_empty_scheme:
  \<open>(\<exists>bytes. MarshalJSON c = Inr bytes)
   \<and> (SchemaObject c = [] \<longrightarrow>
        map_of (wireMembers c) ''skos:topConceptOf'' = Some (JObject [(''@id'', JString [])])
        \<and> (\<exists>pre post. MarshalJSON c = Inr (pre @ ''"skos:topConceptOf":{"@id":""}'' @ post)))\<close>
proof (intro conjI impI)
  show "\<exists>bytes. MarshalJSON c = Inr bytes"
    by (simp add: MarshalJSON_render)
next
  assume e: "SchemaObject c = []"
  show "map_of (wireMembers c) ''skos:topConceptOf'' = Some (JObject [(''@id'', JString [])])"
    using wireMembers_scheme[of c] e by simp
  have "(''skos:topConceptOf'', JObject [(''@id'', JString [])]) \<in> set (wireMembers c)"
    using wireMembers_scheme_member[of c] e by simp
  from render_member[OF this]
  show \<open>\<exists>pre post. MarshalJSON c = Inr (pre @ ''"skos:topConceptOf":{"@id":""}'' @ post)\<close>
    unfolding MarshalJSON_render by (simp only: fst_conv snd_conv render_empty_scheme) blast
qed

theorem MarshalJSON_empty_scheme_witness:
  \<open>SchemaObject (minimalConcept ''Test Pref Label'' ''Test Type'' []) = []
   \<and> MarshalJSON (minimalConcept ''Test Pref Label'' ''Test Type'' []) =
       Inr ''{"skosxl:prefLabel":[{"skosxl:literalForm":[{"@value":"Test Pref Label","@language":"en"}],"@type":["skosxl:Label"]}],"@type":["skos:Concept","Test Type"],"skos:topConceptOf":{"@id":""}}''
   \<and> map_of (wireMembers (minimalConcept ''Test Pref Label'' ''Test Type'' []))
        ''skos:topConceptOf'' = Some (JObject [(''@id'', JString [])])\<close>
proof -
  have s: "SchemaObject (minimalConcept ''Test Pref Label'' ''Test Type'' []) = []"
    by (simp add: minimalConcept_def)
  have b: \<open>MarshalJSON (minimalConcept ''Test Pref Label'' ''Test Type'' []) =
       Inr ''{"skosxl:prefLabel":[{"skosxl:literalForm":[{"@value":"Test Pref Label","@language":"en"}],"@type":["skosxl:Label"]}],"@type":["skos:Concept","Test Type"],"skos:topConceptOf":{"@id":""}}''\<close>
    by code_simp
  show ?thesis
    using MarshalJSON_empty_scheme[of "minimalConcept ''Test Pref Label'' ''Test Type'' []"] s b
    by simp
qed

section \<open>Validation in CreateConcept\<close>

text \<open>
  C5. For a concept whose PrefLabel is empty, or whose Type is empty, or whose SchemaObject
  and Broader are both empty, CreateConcept returns one of its three validation errors,
  and neither the exchanges with the service nor the client have changed: no request was
  sent and no token was exchanged.
\<close>

theorem CreateConcept_validation:
  assumes "PrefLabel concept = [] \<or> Type concept = []
           \<or> (SchemaObject concept = [] \<and> Broader concept = [])"
  shows "\<exists>msg. CreateConcept env c concept task h = (Some (Error msg), c, h)
           \<and> msg \<in> {''input concept should have prefLaber defined'',
                     ''input concept should have either schema or broader relation defined'',
                     ''input concept should have type defined''}"
  using assms by (auto simp: CreateConcept_def)

theorem CreateConcept_validation_witness:
  "SchemaObject (minimalConcept ''Test Pref Label'' ''Test Type'' []) = []
   \<and> Broader (minimalConcept ''Test Pref Label'' ''Test Type'' []) = []
   \<and> (\<exists>msg. CreateConcept (testEnv testTokenRequest (status 200 [])) testClient
               (minimalConcept ''Test Pref Label'' ''Test Type'' []) ''testTask'' []
             = (Some (Error msg), testClient, [])
           \<and> msg \<in> {''input concept should have prefLaber defined'',
                     ''input concept should have either schema or broader relation defined'',
                     ''input concept should have type defined''})"
proof -
  have s: "SchemaObject (minimalConcept ''Test Pref Label'' ''Test Type'' []) = []"
      "Broader (minimalConcept ''Test Pref Label'' ''Test Type'' []) = []"
    by (simp_all add: minimalConcept_def)
  show ?thesis
    using CreateConcept_validation[of "minimalConcept ''Test Pref Label'' ''Test Type'' []"
        "testEnv testTokenRequest (status 200 [])" testClient "''testTask''" "[]"] s
    by blast
qed

section \<open>The token exchange and one attempt of an authorized request\<close>

lemma token_form:
  "Values_Encode (Values_Set ''key'' k (Values_Set ''grant_type'' ''apikey'' [])) =
     ''grant_type=apikey&key='' @ QueryEscape k"
proof -
  have "QueryEscape ''grant_type'' = ''grant_type''" "QueryEscape ''apikey'' = ''apikey''"
      "QueryEscape ''key'' = ''key''"
    by code_simp+
  then show ?thesis
    by (simp add: Values_Encode_def Values_Set_def)
qed

lemma authorized_neq_token: "authorizedRequest m u t b \<noteq> tokenRequest u' k"
  by (simp add: authorizedRequest_def tokenRequest_def)

lemma getAccessToken_cases:
  assumes "newRequestErr env ''POST'' (apiTokenURL c) = None"
  shows "getAccessToken env c h =
     (case roundTrip env h (tokenRequest (apiTokenURL c) (apiKey c)) of
        Inl e \<Rightarrow> Inl (Error (''failed making access token request: '' @ e))
      | Inr resp \<Rightarrow>
          if StatusCode resp \<noteq> 200 then
            Inl (Error (''access token request returned http status '' @ itoa (StatusCode resp)))
          else (case decodeToken env (Body resp) of
                  Inl e \<Rightarrow> Inl (Error (''failed decoding access token in response body: '' @ e))
                | Inr tok \<Rightarrow> Inr tok),
      h @ [(tokenRequest (apiTokenURL c) (apiKey c),
            roundTrip env h (tokenRequest (apiTokenURL c) (apiKey c)))])"
  using assms
  by (simp add: getAccessToken_def NewRequest_def Header_Set_def Do_def token_form
      tokenRequest_def remaining_def split: sum.splits)

lemma getAccessToken_panics:
  "newRequestErr env ''POST'' (apiTokenURL c) = Some e \<Longrightarrow>
   getAccessToken env c h = (Inl (Panic ''invalid memory address or nil pointer dereference''), h)"
  by (simp add: getAccessToken_def NewRequest_def)

lemma attempt:
  assumes "newRequestErr env method url = None" "accessFailures < MaxAccessFailures"
  shows "makeAuthorizedRequest_from env method url body accessFailures c h =
     (let req = authorizedRequest method url (accessToken c) (remaining body);
          h1 = h @ [(req, roundTrip env h req)]
      in case roundTrip env h req of
           Inl e \<Rightarrow> (Inl (Error (''failed making authorized request: '' @ e)), c, h1)
         | Inr resp \<Rightarrow>
             if StatusCode resp = 401 then
               (case getAccessToken env c h1 of
                  (Inl (Panic p), h2) \<Rightarrow> (Inl (Panic p), c, h2)
                | (Inl (Error e), h2) \<Rightarrow>
                    (Inl (Error ''failed making request with valid access token''), c, h2)
                | (Inr tok, h2) \<Rightarrow>
                    makeAuthorizedRequest_from env method url (drained body)
                      (accessFailures + 1) (c\<lparr>accessToken := tok\<rparr>) h2)
             else (Inr resp, c, h1))"
  apply (subst makeAuthorizedRequest_from.simps)
  using assms
  apply (simp add: NewRequest_def Header_Set_def Do_def authorizedRequest_def Let_def
      split: sum.splits)
  done

lemma attempts_exhausted:
  "\<not> accessFailures < MaxAccessFailures \<Longrightarrow>
   makeAuthorizedRequest_from env method url body accessFailures c h =
     (Inl (Error ''failed making request with valid access token''), c, h)"
  by (subst makeAuthorizedRequest_from.simps) simp

lemma attempt_refused:
  "newRequestErr env method url = Some e \<Longrightarrow> accessFailures < MaxAccessFailures \<Longrightarrow>
   makeAuthorizedRequest_from env method url body accessFailures c h =
     (Inl (Error (''failed creating authorized request: '' @ e)), c, h)"
  by (subst makeAuthorizedRequest_from.simps) (simp add: NewRequest_def)

lemma attempt_answered:
  assumes "newRequestErr env method url = None" "accessFailures < MaxAccessFailures"
    and "roundTrip env h (authorizedRequest method url (accessToken c) (remaining body)) = Inr resp"
    and "StatusCode resp \<noteq> 401"
  shows "makeAuthorizedRequest_from env method url body accessFailures c h =
     (Inr resp, c, h @ [(authorizedRequest method url (accessToken c) (remaining body), Inr resp)])"
  using assms(3-) by (simp add: attempt[OF assms(1,2)])

lemma attempt_unauthorized:
  assumes "newRequestErr env method url = None" "accessFailures < MaxAccessFailures"
    and "newRequestErr env ''POST'' (apiTokenURL c) = None"
    and "roundTrip env h (authorizedRequest method url (accessToken c) (remaining body)) = Inr resp"
    and "StatusCode resp = 401"
    and "roundTrip env
           (h @ [(authorizedRequest method url (accessToken c) (remaining body), Inr resp)])
           (tokenRequest (apiTokenURL c) (apiKey c)) = Inr tresp"
    and "StatusCode tresp = 200" "decodeToken env (Body tresp) = Inr tok"
  shows "makeAuthorizedRequest_from env method url body accessFailures c h =
     makeAuthorizedRequest_from env method url (drained body) (Suc accessFailures)
       (c\<lparr>accessToken := tok\<rparr>)
       (h @ [(authorizedRequest method url (accessToken c) (remaining body), Inr resp),
             (tokenRequest (apiTokenURL c) (apiKey c), Inr tresp)])"
  using assms(4-) by (simp add: attempt[OF assms(1,2)] getAccessToken_cases[OF assms(3)])

lemma drained_drained: "drained (drained body) = drained body"
  by (cases body) (simp_all add: drained_def)

lemma remaining_drained: "remaining (drained body) = []"
  by (cases body) (simp_all add: drained_def remaining_def)

section \<open>Retrying after a 401\<close>

text \<open>
  C2. When every attempt of the request is answered with 401 and every token exchange
  succeeds, makeAuthorizedRequest sends the request exactly three times, each time followed
  by a token exchange, and returns the authentication error and no response.
\<close>

theorem makeAuthorizedRequest_always_unauthorized:
  assumes new: "newRequestErr env method url = None"
    and newt: "newRequestErr env ''POST'' (apiTokenURL c) = None"
    and data: "\<forall>h' tok b. \<exists>resp.
        roundTrip env h' (authorizedRequest method url tok b) = Inr resp \<and> StatusCode resp = 401"
    and token: "\<forall>h'. \<exists>resp tok.
        roundTrip env h' (tokenRequest (apiTokenURL c) (apiKey c)) = Inr resp
        \<and> StatusCode resp = 200 \<and> decodeToken env (Body resp) = Inr tok"
  shows "\<exists>t1 t2 t3 evs.
      makeAuthorizedRequest env method url body c h =
        (Inl (Error ''failed making request with valid access token''),
         c\<lparr>accessToken := t3\<rparr>, h @ evs)
      \<and> map fst evs =
          [authorizedRequest method url (accessToken c) (remaining body),
           tokenRequest (apiTokenURL c) (apiKey c),
           authorizedRequest method url t1 (remaining (drained body)),
           tokenRequest (apiTokenURL c) (apiKey c),
           authorizedRequest method url t2 (remaining (drained body)),
           tokenRequest (apiTokenURL c) (apiKey c)]"
proof -
  let ?T = "tokenRequest (apiTokenURL c) (apiKey c)"
  let ?A0 = "authorizedRequest method url (accessToken c) (remaining body)"
  obtain r1 where r1: "roundTrip env h ?A0 = Inr r1" "StatusCode r1 = 401"
    using data by blast
  let ?h1 = "h @ [(?A0, Inr r1)]"
  obtain q1 t1 where q1: "roundTrip env ?h1 ?T = Inr q1" "StatusCode q1 = 200"
      "decodeToken env (Body q1) = Inr t1"
    using token by blast
  let ?h2 = "h @ [(?A0, Inr r1), (?T, Inr q1)]"
  let ?c1 = "c\<lparr>accessToken := t1\<rparr>"
  let ?A1 = "authorizedRequest method url t1 (remaining (drained body))"
  have s1: "makeAuthorizedRequest_from env method url body 0 c h =
      makeAuthorizedRequest_from env method url (drained body) (Suc 0) ?c1 ?h2"
    using attempt_unauthorized[OF new _ newt r1 q1, of 0] by (simp add: MaxAccessFailures_def)
  obtain r2 where r2: "roundTrip env ?h2 ?A1 = Inr r2" "StatusCode r2 = 401"
    using data by blast
  let ?h3 = "?h2 @ [(?A1, Inr r2)]"
  obtain q2 t2 where q2: "roundTrip env ?h3 ?T = Inr q2" "StatusCode q2 = 200"
      "decodeToken env (Body q2) = Inr t2"
    using token by blast
  let ?h4 = "?h2 @ [(?A1, Inr r2), (?T, Inr q2)]"
  let ?c2 = "c\<lparr>accessToken := t2\<rparr>"
  let ?A2 = "authorizedRequest method url t2 (remaining (drained body))"
  have s2: "makeAuthorizedRequest_from env method url (drained body) (Suc 0) ?c1 ?h2 =
      makeAuthorizedRequest_from env method url (drained body) (Suc (Suc 0)) ?c2 ?h4"
    using attempt_unauthorized[of env "method" "url" "Suc 0" ?c1 ?h2 "drained body" r2 q2 t2]
      new newt r2 q2 by (simp add: MaxAccessFailures_def drained_drained)
  obtain r3 where r3: "roundTrip env ?h4 ?A2 = Inr r3" "StatusCode r3 = 401"
    using data by blast
  let ?h5 = "?h4 @ [(?A2, Inr r3)]"
  obtain q3 t3 where q3: "roundTrip env ?h5 ?T = Inr q3" "StatusCode q3 = 200"
      "decodeToken env (Body q3) = Inr t3"
    using token by blast
  let ?h6 = "?h4 @ [(?A2, Inr r3), (?T, Inr q3)]"
  let ?c3 = "c\<lparr>accessToken := t3\<rparr>"
  have s3: "makeAuthorizedRequest_from env method url (drained body) (Suc (Suc 0)) ?c2 ?h4 =
      makeAuthorizedRequest_from env method url (drained body) (Suc (Suc (Suc 0))) ?c3 ?h6"
    using attempt_unauthorized[of env "method" "url" "Suc (Suc 0)" ?c2 ?h4 "drained body" r3 q3 t3]
      new newt r3 q3 by (simp add: MaxAccessFailures_def drained_drained)
  have s4: "makeAuthorizedRequest_from env method url (drained body) (Suc (Suc (Suc 0))) ?c3 ?h6 =
      (Inl (Error ''failed making request with valid access token''), ?c3, ?h6)"
    by (rule attempts_exhausted) (simp add: MaxAccessFailures_def)
  have "makeAuthorizedRequest env method url body c h =
      (Inl (Error ''failed making request with valid access token''), ?c3,
       h @ [(?A0, Inr r1), (?T, Inr q1), (?A1, Inr r2), (?T, Inr q2), (?A2, Inr r3), (?T, Inr q3)])"
    unfolding makeAuthorizedRequest_def s1 s2 s3 s4 by simp
  then show ?thesis
    by (intro exI[of _ t1] exI[of _ t2] exI[of _ t3]
        exI[of _ "[(?A0, Inr r1), (?T, Inr q1), (?A1, Inr r2), (?T, Inr q2),
                   (?A2, Inr r3), (?T, Inr q3)]"])
      simp
qed

theorem makeAuthorizedRequest_always_unauthorized_witness:
  \<open>\<exists>t1 t2 t3 evs.
      makeAuthorizedRequest (testEnv testTokenRequest (status 401 [])) ''POST''
          (baseAPIURL testClient) (Some ''{}'') testClient [] =
        (Inl (Error ''failed making request with valid access token''),
         testClient\<lparr>accessToken := t3\<rparr>, [] @ evs)
      \<and> map fst evs =
          [authorizedRequest ''POST'' (baseAPIURL testClient) (accessToken testClient)
             (remaining (Some ''{}'')),
           tokenRequest (apiTokenURL testClient) (apiKey testClient),
           authorizedRequest ''POST'' (baseAPIURL testClient) t1 (remaining (drained (Some ''{}''))),
           tokenRequest (apiTokenURL testClient) (apiKey testClient),
           authorizedRequest ''POST'' (baseAPIURL testClient) t2 (remaining (drained (Some ''{}''))),
           tokenRequest (apiTokenURL testClient) (apiKey testClient)]\<close>
  by (rule makeAuthorizedRequest_always_unauthorized)
    (simp_all add: testEnv_def testServer_def testTokenRequest_def authorized_neq_token
      status_def testDecodeToken_def)

text \<open>
  What one retry does: after a 401 and a successful token exchange, the request is sent
  again with the same method and URL and the new token, the client stores the new token,
  and the second response is returned. The body of the second request is what is left in
  the reader after the first attempt read it: nothing.
\<close>

lemma makeAuthorizedRequest_retry_once:
  assumes new: "newRequestErr env method url = None"
    and newt: "newRequestErr env ''POST'' (apiTokenURL c) = None"
    and first: "roundTrip env h (authorizedRequest method url (accessToken c) (remaining body))
                  = Inr r1" "StatusCode r1 = 401"
    and exch: "roundTrip env
                 (h @ [(authorizedRequest method url (accessToken c) (remaining body), Inr r1)])
                 (tokenRequest (apiTokenURL c) (apiKey c)) = Inr q"
              "StatusCode q = 200" "decodeToken env (Body q) = Inr tok"
    and second: "roundTrip env
                 (h @ [(authorizedRequest method url (accessToken c) (remaining body), Inr r1),
                       (tokenRequest (apiTokenURL c) (apiKey c), Inr q)])
                 (authorizedRequest method url tok []) = Inr r2" "StatusCode r2 \<noteq> 401"
  shows "makeAuthorizedRequest env method url body c h =
     (Inr r2, c\<lparr>accessToken := tok\<rparr>,
      h @ [(authorizedRequest method url (accessToken c) (remaining body), Inr r1),
           (tokenRequest (apiTokenURL c) (apiKey c), Inr q),
           (authorizedRequest method url tok [], Inr r2)])"
proof -
  have s1: "makeAuthorizedRequest_from env method url body 0 c h =
      makeAuthorizedRequest_from env method url (drained body) (Suc 0) (c\<lparr>accessToken := tok\<rparr>)
        (h @ [(authorizedRequest method url (accessToken c) (remaining body), Inr r1),
              (tokenRequest (apiTokenURL c) (apiKey c), Inr q)])"
    using attempt_unauthorized[OF new _ newt first exch, of 0] by (simp add: MaxAccessFailures_def)
  have s2: "makeAuthorizedRequest_from env method url (drained body) (Suc 0)
        (c\<lparr>accessToken := tok\<rparr>)
        (h @ [(authorizedRequest method url (accessToken c) (remaining body), Inr r1),
              (tokenRequest (apiTokenURL c) (apiKey c), Inr q)]) =
      (Inr r2, c\<lparr>accessToken := tok\<rparr>,
       (h @ [(authorizedRequest method url (accessToken c) (remaining body), Inr r1),
             (tokenRequest (apiTokenURL c) (apiKey c), Inr q)])
         @ [(authorizedRequest method url tok [], Inr r2)])"
    using attempt_answered[of env "method" "url" "Suc 0" _ "c\<lparr>accessToken := tok\<rparr>" "drained body" r2]
      new second by (simp add: MaxAccessFailures_def remaining_drained)
  show ?thesis
    unfolding makeAuthorizedRequest_def s1 s2 by simp
qed

text \<open>
  C3, at a concrete run. The first attempt carries the body \<open>{}\<close> and is answered with
  401, the token exchange succeeds, and the second attempt is answered with 200: one
  token exchange, the new token stored and sent, the second response returned; but the
  second attempt carries an empty body, not the bytes of the first.
\<close>

theorem makeAuthorizedRequest_retry_loses_body:
  "makeAuthorizedRequest (testEnv testTokenRequest unauthorizedOnce) ''POST''
      (baseAPIURL testClient) (Some ''{}'') testClient [] =
     (Inr \<lparr>StatusCode = 200, Body = []\<rparr>, testClient\<lparr>accessToken := ''test_token''\<rparr>,
      [(authorizedRequest ''POST'' (baseAPIURL testClient) ''expired_token'' ''{}'',
        Inr \<lparr>StatusCode = 401, Body = []\<rparr>),
       (testTokenRequest, Inr \<lparr>StatusCode = 200, Body = tokenBody\<rparr>),
       (authorizedRequest ''POST'' (baseAPIURL testClient) ''test_token'' [],
        Inr \<lparr>StatusCode = 200, Body = []\<rparr>)])"
  by code_simp

section \<open>What makeAuthorizedRequest changes\<close>

lemma exchangedTokens_append:
  "exchangedTokens env t (xs @ ys) = exchangedTokens env t xs @ exchangedTokens env t ys"
  by (induction xs) simp_all

lemma getAccessToken_effect:
  "\<exists>evs. snd (getAccessToken env c h) = h @ evs
     \<and> (case fst (getAccessToken env c h) of
           Inl e \<Rightarrow> exchangedTokens env (tokenRequest (apiTokenURL c) (apiKey c)) evs = []
         | Inr tok \<Rightarrow> exchangedTokens env (tokenRequest (apiTokenURL c) (apiKey c)) evs = [tok])"
proof (cases "newRequestErr env ''POST'' (apiTokenURL c)")
  case None
  show ?thesis
    unfolding getAccessToken_cases[OF None]
    by (auto split: sum.splits)
next
  case (Some e)
  then show ?thesis
    by (simp add: getAccessToken_panics)
qed

lemma loop_frame:
  "\<exists>evs. snd (snd (makeAuthorizedRequest_from env method url body i c h)) = h @ evs
     \<and> fst (snd (makeAuthorizedRequest_from env method url body i c h)) =
         c\<lparr>accessToken :=
             last (accessToken c
                   # exchangedTokens env (tokenRequest (apiTokenURL c) (apiKey c)) evs)\<rparr>
     \<and> ((\<forall>e \<in> set evs. \<not> unauthorized e) \<longrightarrow>
          exchangedTokens env (tokenRequest (apiTokenURL c) (apiKey c)) evs = [])"
proof (induction env "method" "url" body i c h rule: makeAuthorizedRequest_from.induct)
  case (1 env m u body i c h)
  let ?T = "tokenRequest (apiTokenURL c) (apiKey c)"
  let ?A = "authorizedRequest m u (accessToken c) (remaining body)"
  show ?case
  proof (cases "i < MaxAccessFailures")
    case False
    then show ?thesis by (simp add: attempts_exhausted)
  next
    case lt: True
    show ?thesis
    proof (cases "newRequestErr env m u")
      case (Some e)
      then show ?thesis using lt by (simp add: attempt_refused)
    next
      case None
      note step = attempt[OF None lt, of body c h]
      have A: "exchangedTokens env ?T [(?A, out)] = []" for out
        by (simp add: authorized_neq_token split: sum.splits)
      show ?thesis
      proof (cases "roundTrip env h ?A")
        case (Inl e)
        then show ?thesis
          by (simp add: step Let_def unauthorized_def authorized_neq_token)
      next
        case (Inr resp)
        let ?h1 = "h @ [(?A, Inr resp)]"
        show ?thesis
        proof (cases "StatusCode resp = 401")
          case False
          then show ?thesis using Inr
            by (simp add: step Let_def unauthorized_def authorized_neq_token)
        next
          case True
          obtain tevs where tevs: "snd (getAccessToken env c ?h1) = ?h1 @ tevs"
            and tk: "(case fst (getAccessToken env c ?h1) of
                       Inl e \<Rightarrow> exchangedTokens env ?T tevs = []
                     | Inr tok \<Rightarrow> exchangedTokens env ?T tevs = [tok])"
            using getAccessToken_effect[of env c ?h1] by blast
          have una: "unauthorized (?A, Inr resp)"
            using True by (simp add: unauthorized_def)
          show ?thesis
          proof (cases "fst (getAccessToken env c ?h1)")
            case e: (Inl err)
            have g: "getAccessToken env c ?h1 = (Inl err, ?h1 @ tevs)"
              using e tevs by (metis prod.collapse)
            have res: "makeAuthorizedRequest_from env m u body i c h =
                (Inl (case err of
                        Error msg \<Rightarrow> Error ''failed making request with valid access token''
                      | Panic p \<Rightarrow> Panic p), c, ?h1 @ tevs)"
              by (cases err) (simp_all add: step Let_def Inr True g)
            have ex: "exchangedTokens env ?T ((?A, Inr resp) # tevs) = []"
              using tk e A[of "Inr resp"]
                exchangedTokens_append[of env ?T "[(?A, Inr resp)]" tevs]
              by simp
            show ?thesis
              unfolding res
              by (rule exI[of _ "(?A, Inr resp) # tevs"])
                (simp add: ex una del: exchangedTokens.simps)
          next
            case t: (Inr tok)
            have g: "getAccessToken env c ?h1 = (Inr tok, ?h1 @ tevs)"
              using t tevs by (metis prod.collapse)
            let ?c1 = "c\<lparr>accessToken := tok\<rparr>"
            let ?h2 = "?h1 @ tevs"
            let ?rec = "makeAuthorizedRequest_from env m u (drained body) (i + 1) ?c1 ?h2"
            let ?r0 = "\<lparr>Method = m, ReqURL = url_Parse (URL_String u), Header = [],
                       ReqBody = remaining body\<rparr>"
            let ?req = "Header_Set ''Content-Type'' ''application/ld+json''
                   (Header_Set ''Authorization'' (''Bearer '' @ accessToken c) ?r0)"
            have nr: "NewRequest env m u body = Inr ?r0"
              by (simp add: NewRequest_def None)
            have d: "(Inr resp, ?h1) = Do env ?req h"
              using Inr by (simp add: Do_def Header_Set_def authorizedRequest_def)
            have "\<exists>evs. snd (snd ?rec) = ?h2 @ evs
               \<and> fst (snd ?rec) =
                   ?c1\<lparr>accessToken :=
                         last (accessToken ?c1
                               # exchangedTokens env
                                   (tokenRequest (apiTokenURL ?c1) (apiKey ?c1)) evs)\<rparr>
               \<and> ((\<forall>e \<in> set evs. \<not> unauthorized e) \<longrightarrow>
                    exchangedTokens env (tokenRequest (apiTokenURL ?c1) (apiKey ?c1)) evs = [])"
              by (rule "1.IH"[OF lt nr refl d refl True g[symmetric] refl])
            then obtain evs where
              1: "snd (snd ?rec) = ?h2 @ evs"
              and 2: "fst (snd ?rec) = c\<lparr>accessToken := last (tok # exchangedTokens env ?T evs)\<rparr>"
              by auto
            have res: "makeAuthorizedRequest_from env m u body i c h = ?rec"
              by (simp add: step Let_def Inr True g)
            have ex: "exchangedTokens env ?T ((?A, Inr resp) # tevs @ evs) =
                tok # exchangedTokens env ?T evs"
              using tk t A[of "Inr resp"]
                exchangedTokens_append[of env ?T "[(?A, Inr resp)]" "tevs @ evs"]
                exchangedTokens_append[of env ?T tevs evs]
              by simp
            show ?thesis
              unfolding res using 1 2
              by (intro exI[of _ "(?A, Inr resp) # tevs @ evs"])
                (simp add: ex una del: exchangedTokens.simps)
          qed
        qed
      qed
    qed
  qed
qed



section \<open>The request of AddConceptMetadataField\<close>

lemma first_exchange:
  assumes "newRequestErr env method url = None"
  shows "\<exists>evs. snd (snd (makeAuthorizedRequest env method url body c h)) =
           h @ (authorizedRequest method url (accessToken c) (remaining body),
                roundTrip env h (authorizedRequest method url (accessToken c) (remaining body)))
             # evs"
proof -
  let ?A = "authorizedRequest method url (accessToken c) (remaining body)"
  let ?h1 = "h @ [(?A, roundTrip env h ?A)]"
  have lt: "0 < MaxAccessFailures" by (simp add: MaxAccessFailures_def)
  note step = attempt[OF assms lt, of body c h]
  show ?thesis
  proof (cases "roundTrip env h ?A")
    case (Inl e)
    then show ?thesis by (simp add: makeAuthorizedRequest_def step Let_def)
  next
    case (Inr resp)
    show ?thesis
    proof (cases "StatusCode resp = 401")
      case False
      then show ?thesis using Inr by (simp add: makeAuthorizedRequest_def step Let_def)
    next
      case True
      obtain tevs where tevs: "snd (getAccessToken env c (h @ [(?A, Inr resp)])) =
          (h @ [(?A, Inr resp)]) @ tevs"
        using getAccessToken_effect[of env c "h @ [(?A, Inr resp)]"] by blast
      obtain res where g: "getAccessToken env c (h @ [(?A, Inr resp)]) =
          (res, (h @ [(?A, Inr resp)]) @ tevs)"
        using tevs by (metis prod.collapse)
      show ?thesis
      proof (cases res)
        case (Inl err)
        then show ?thesis
          using Inr True g
          by (cases err) (simp_all add: makeAuthorizedRequest_def step Let_def)
      next
        case t: (Inr tok)
        obtain evs where "snd (snd (makeAuthorizedRequest_from env method url (drained body)
            (0 + 1) (c\<lparr>accessToken := tok\<rparr>) ((h @ [(?A, Inr resp)]) @ tevs))) =
            ((h @ [(?A, Inr resp)]) @ tevs) @ evs"
          using loop_frame[of env "method" "url" "drained body" "0 + 1" "c\<lparr>accessToken := tok\<rparr>"
              "(h @ [(?A, Inr resp)]) @ tevs"] by blast
        then show ?thesis
          using Inr True g t
          by (simp add: makeAuthorizedRequest_def step Let_def)
      qed
    qed
  qed
qed

lemma metadata_path:
  "QueryEscape (QueryEscape (''<'' @ ConceptURIPrefix @ ''/''
       @ ''7bcfe07b-0fb1-49ce-a5fa-e51d5c01c3e0'' @ ''>'')) =
     ''%253Chttp%253A%252F%252Fwww.ft.com%252Fthing%252F7bcfe07b-0fb1-49ce-a5fa-e51d5c01c3e0%253E''"
  by code_simp

lemma metadata_body:
  \<open>json_Marshal (stringMap_json
      (AList.update (MetadataFieldPrefix @ ''/'' @ ''factsetIdentifier'') ''0DR49W-E''
         (AList.update ''@id'' (ConceptURIPrefix @ ''/'' @ ''7bcfe07b-0fb1-49ce-a5fa-e51d5c01c3e0'')
            []))) =
     Inr ''{"@id":"http://www.ft.com/thing/7bcfe07b-0fb1-49ce-a5fa-e51d5c01c3e0","http://www.ft.com/ontology/factsetIdentifier":"0DR49W-E"}''\<close>
  by code_simp

lemma AddConceptMetadataField_exchanges:
  "snd (snd (AddConceptMetadataField env c conceptID fieldName fieldValue task h)) =
   snd (snd (makeAuthorizedRequest env ''POST''
     ((baseAPIURL c)\<lparr>RawQuery := ''path='' @ ''task:'' @ model c @ '':'' @ task @ ''/''
         @ QueryEscape (QueryEscape (''<'' @ ConceptURIPrefix @ ''/'' @ conceptID @ ''>''))\<rparr>)
     (Some (render (stringMap_json
        (AList.update (MetadataFieldPrefix @ ''/'' @ fieldName) fieldValue
           (AList.update ''@id'' (ConceptURIPrefix @ ''/'' @ conceptID) [])))))
     c h))"
  by (simp add: AddConceptMetadataField_def json_Marshal_def Let_def
      split: prod.splits sum.splits error.splits)

text \<open>What the second parse keeps of the raw query the client wrote.\<close>

lemma upperhex_nth: "n < 16 \<Longrightarrow> upperhex ! n \<in> set upperhex"
  by (rule nth_mem) (simp add: upperhex_def)

lemma escape_avoids:
  assumes "should x" "x \<noteq> CHR ''%''" "x \<notin> set upperhex"
  shows "x \<notin> set (escape should s)"
proof -
  have d: "of_char c div 16 < (16::nat)" and m: "of_char c mod 16 < (16::nat)" for c :: char
  proof -
    have "of_char c < (256::nat)" by simp
    then show "of_char c div 16 < (16::nat)" by presburger
    show "of_char c mod 16 < (16::nat)" by simp
  qed
  have "x \<noteq> upperhex ! (of_char c div 16)" "x \<noteq> upperhex ! (of_char c mod 16)" for c :: char
    using assms(3) upperhex_nth[OF d[of c]] upperhex_nth[OF m[of c]] by auto
  then show ?thesis
    using assms(1,2) by (induction s) (auto simp: escape_def)
qed

lemma EscapedPath_avoids:
  assumes "x = CHR ''#'' \<or> x = CHR ''?''"
  shows "x \<notin> set (EscapedPath u)"
proof -
  have "shouldEscapePath x" "x \<noteq> CHR ''%''" "x \<notin> set upperhex"
    using assms by (auto simp: shouldEscapePath_def shouldEscape_def upperhex_def)
  then have "x \<notin> set (escape shouldEscapePath (Path u))"
    by (rule escape_avoids)
  then show ?thesis
    using assms by (auto simp: EscapedPath_def)
qed

lemma hostEscape_avoids:
  assumes "x = CHR ''#'' \<or> x = CHR ''?''"
  shows "x \<notin> set (escape shouldEscapeHost host)"
proof -
  have "shouldEscapeHost x" "x \<noteq> CHR ''%''" "x \<notin> set upperhex"
    using assms by (auto simp: shouldEscapeHost_def shouldEscape_def upperhex_def)
  then show ?thesis
    by (rule escape_avoids)
qed

lemma URL_String_query:
  "URL_String u =
     URL_String (u\<lparr>RawQuery := []\<rparr>) @ (if RawQuery u \<noteq> [] then ''?'' @ RawQuery u else [])"
  by (simp add: URL_String_def EscapedPath_def Let_def)

lemma URL_String_avoids:
  assumes "x = CHR ''#'' \<or> x = CHR ''?''" "x \<notin> set (Scheme u)"
  shows "x \<notin> set (URL_String (u\<lparr>RawQuery := []\<rparr>))"
proof -
  have p: "x \<notin> set (EscapedPath (u\<lparr>RawQuery := []\<rparr>))"
    using assms(1) by (rule EscapedPath_avoids)
  have h: "x \<notin> set (escape shouldEscapeHost (Host u))"
    using assms(1) by (rule hostEscape_avoids)
  show ?thesis
    using assms p h by (auto simp: URL_String_def Let_def)
qed

lemma getScheme_keeps_query:
  assumes "CHR ''?'' \<notin> set p"
  shows "\<exists>p'. snd (getScheme (p @ CHR ''?'' # q)) = p' @ CHR ''?'' # q \<and> CHR ''?'' \<notin> set p'"
proof -
  have n: "\<not> isSchemeChar CHR ''?''"
    by (simp add: isSchemeChar_def isLetter_def)
  have t: "takeWhile isSchemeChar (p @ CHR ''?'' # q) = takeWhile isSchemeChar p"
    using n by (rule takeWhile_tail)
  have d: "dropWhile isSchemeChar (p @ CHR ''?'' # q) = dropWhile isSchemeChar p @ CHR ''?'' # q"
    using n by (rule dropWhile_append3)
  show ?thesis
  proof (cases "dropWhile isSchemeChar p")
    case Nil
    have d': "dropWhile isSchemeChar (p @ CHR ''?'' # q) = CHR ''?'' # q"
      by (simp only: d Nil append_Nil)
    have "snd (getScheme (p @ CHR ''?'' # q)) = p @ CHR ''?'' # q"
      by (simp add: getScheme_def t d' Let_def split: list.splits)
    then show ?thesis using assms by blast
  next
    case (Cons y ys)
    have "set ys \<subseteq> set p"
      using set_dropWhileD[of _ isSchemeChar p] Cons by auto
    then have ys: "CHR ''?'' \<notin> set ys" using assms by auto
    have d': "dropWhile isSchemeChar (p @ CHR ''?'' # q) = y # ys @ CHR ''?'' # q"
      by (simp only: d Cons append_Cons)
    have "snd (getScheme (p @ CHR ''?'' # q)) = p @ CHR ''?'' # q
        \<or> snd (getScheme (p @ CHR ''?'' # q)) = ys @ CHR ''?'' # q"
      by (simp add: getScheme_def t d' Let_def split: list.splits)
    then show ?thesis using assms ys by blast
  qed
qed

lemma url_Parse_keeps_query:
  assumes p: "CHR ''#'' \<notin> set p" "CHR ''?'' \<notin> set p"
    and q: "CHR ''#'' \<notin> set q" "q \<noteq> []" "last q \<noteq> CHR ''?''"
  shows "RawQuery (url_Parse (p @ ''?'' @ q)) = q"
proof -
  let ?s = "p @ CHR ''?'' # q"
  have u: "fst (cut CHR ''#'' ?s) = ?s"
    using p(1) q(1) by (auto simp: cut_def)
  have star: "?s \<noteq> ''*''"
    using q(2) by (cases p) auto
  obtain p' where r: "snd (getScheme ?s) = p' @ CHR ''?'' # q" and p': "CHR ''?'' \<notin> set p'"
    using getScheme_keeps_query[OF p(2)] by blast
  have l: "last (p' @ CHR ''?'' # q) \<noteq> CHR ''?''"
    using q(2,3) by simp
  have c: "snd (cut CHR ''?'' (p' @ CHR ''?'' # q)) = q"
    using p' by (simp add: cut_def dropWhile_append)
  show ?thesis
    using star l c by (simp add: url_Parse_def u r Let_def)
qed

text \<open>
  C6, as stated for every model and task, fails where the task has a \<open>#\<close>: the client
  writes the task into the raw query unescaped, and the parse of the URL string takes
  everything from the \<open>#\<close> on as the fragment. For the task \<open>x#y\<close> the one request
  that is sent has the raw query \<open>path=task:testModel:x\<close>.
\<close>

theorem AddConceptMetadataField_request_counterexample:
  "map (RawQuery \<circ> ReqURL \<circ> fst)
     (snd (snd (AddConceptMetadataField (testEnv testTokenRequest (status 200 [])) testClient
                  ''7bcfe07b-0fb1-49ce-a5fa-e51d5c01c3e0'' ''factsetIdentifier'' ''0DR49W-E''
                  ''x#y'' [])))
     = [''path=task:testModel:x'']
   \<and> ''path=task:testModel:x'' \<noteq>
       ''path=task:testModel:x#y/%253Chttp%253A%252F%252Fwww.ft.com%252Fthing%252F7bcfe07b-0fb1-49ce-a5fa-e51d5c01c3e0%253E''"
  by code_simp

text \<open>
  C6, amended. When neither the model nor the task has a \<open>#\<close> (and the scheme of the
  base URL has neither \<open>#\<close> nor \<open>?\<close>, as every scheme that was parsed), and the
  request can be created, AddConceptMetadataField with conceptID
  "7bcfe07b-0fb1-49ce-a5fa-e51d5c01c3e0", fieldName "factsetIdentifier" and fieldValue
  "0DR49W-E" first sends a POST whose raw query is \<open>path=task:<model>:<task>/\<close> followed
  by the concept URI in angle brackets, percent-encoded twice, and whose body is the JSON
  object below.
\<close>

theorem AddConceptMetadataField_request:
  assumes "newRequestErr env ''POST''
     ((baseAPIURL c)\<lparr>RawQuery := ''path=task:'' @ model c @ '':'' @ task
        @ ''/%253Chttp%253A%252F%252Fwww.ft.com%252Fthing%252F7bcfe07b-0fb1-49ce-a5fa-e51d5c01c3e0%253E''\<rparr>)
     = None"
    and "CHR ''#'' \<notin> set (model c)" "CHR ''#'' \<notin> set task"
    and "CHR ''#'' \<notin> set (Scheme (baseAPIURL c))" "CHR ''?'' \<notin> set (Scheme (baseAPIURL c))"
  shows \<open>\<exists>req out evs.
     snd (snd (AddConceptMetadataField env c ''7bcfe07b-0fb1-49ce-a5fa-e51d5c01c3e0''
                 ''factsetIdentifier'' ''0DR49W-E'' task h)) = h @ (req, out) # evs
     \<and> Method req = ''POST''
     \<and> RawQuery (ReqURL req) = ''path=task:'' @ model c @ '':'' @ task
          @ ''/%253Chttp%253A%252F%252Fwww.ft.com%252Fthing%252F7bcfe07b-0fb1-49ce-a5fa-e51d5c01c3e0%253E''
     \<and> ReqBody req = ''{"@id":"http://www.ft.com/thing/7bcfe07b-0fb1-49ce-a5fa-e51d5c01c3e0","http://www.ft.com/ontology/factsetIdentifier":"0DR49W-E"}''\<close>
proof -
  let ?Q = "''path=task:'' @ model c @ '':'' @ task
        @ ''/%253Chttp%253A%252F%252Fwww.ft.com%252Fthing%252F7bcfe07b-0fb1-49ce-a5fa-e51d5c01c3e0%253E''"
  let ?U = "(baseAPIURL c)\<lparr>RawQuery := ?Q\<rparr>"
  let ?B = \<open>''{"@id":"http://www.ft.com/thing/7bcfe07b-0fb1-49ce-a5fa-e51d5c01c3e0","http://www.ft.com/ontology/factsetIdentifier":"0DR49W-E"}''\<close>
  let ?A = "authorizedRequest ''POST'' ?U (accessToken c) ?B"
  have b: "render (stringMap_json
      (AList.update (MetadataFieldPrefix @ ''/'' @ ''factsetIdentifier'') ''0DR49W-E''
         (AList.update ''@id'' (ConceptURIPrefix @ ''/'' @ ''7bcfe07b-0fb1-49ce-a5fa-e51d5c01c3e0'')
            []))) = ?B"
    using metadata_body by (simp add: json_Marshal_def)
  have "snd (snd (AddConceptMetadataField env c ''7bcfe07b-0fb1-49ce-a5fa-e51d5c01c3e0''
                 ''factsetIdentifier'' ''0DR49W-E'' task h)) =
        snd (snd (makeAuthorizedRequest env ''POST'' ?U (Some ?B) c h))"
    unfolding AddConceptMetadataField_exchanges metadata_path b by simp
  moreover obtain evs where
    "snd (snd (makeAuthorizedRequest env ''POST'' ?U (Some ?B) c h)) =
       h @ (?A, roundTrip env h ?A) # evs"
    using first_exchange[OF assms(1), of "Some ?B" c h] by (auto simp: remaining_def)
  ultimately have ex: "snd (snd (AddConceptMetadataField env c
        ''7bcfe07b-0fb1-49ce-a5fa-e51d5c01c3e0'' ''factsetIdentifier'' ''0DR49W-E'' task h)) =
        h @ (?A, roundTrip env h ?A) # evs"
    by simp
  have pre: "CHR ''#'' \<notin> set (URL_String (?U\<lparr>RawQuery := []\<rparr>))"
      "CHR ''?'' \<notin> set (URL_String (?U\<lparr>RawQuery := []\<rparr>))"
    using URL_String_avoids[of "CHR ''#''" ?U] URL_String_avoids[of "CHR ''?''" ?U] assms(4,5)
    by simp_all
  have qh: "CHR ''#'' \<notin> set ?Q" "?Q \<noteq> []" "last ?Q \<noteq> CHR ''?''"
    using assms(2,3) by simp_all
  have "URL_String ?U = URL_String (?U\<lparr>RawQuery := []\<rparr>) @ ''?'' @ ?Q"
    using URL_String_query[of ?U] by simp
  then have "RawQuery (url_Parse (URL_String ?U)) = ?Q"
    using url_Parse_keeps_query[OF pre qh] by simp
  then have "Method ?A = ''POST''" "RawQuery (ReqURL ?A) = ?Q" "ReqBody ?A = ?B"
    by (simp_all add: authorizedRequest_def)
  with ex show ?thesis by blast
qed

theorem AddConceptMetadataField_request_witness:
  \<open>\<exists>req out evs.
     snd (snd (AddConceptMetadataField (testEnv testTokenRequest (status 200 [])) testClient
                 ''7bcfe07b-0fb1-49ce-a5fa-e51d5c01c3e0'' ''factsetIdentifier'' ''0DR49W-E''
                 ''testTask'' [])) = [] @ (req, out) # evs
     \<and> Method req = ''POST''
     \<and> RawQuery (ReqURL req) = ''path=task:'' @ model testClient @ '':'' @ ''testTask''
          @ ''/%253Chttp%253A%252F%252Fwww.ft.com%252Fthing%252F7bcfe07b-0fb1-49ce-a5fa-e51d5c01c3e0%253E''
     \<and> ReqBody req = ''{"@id":"http://www.ft.com/thing/7bcfe07b-0fb1-49ce-a5fa-e51d5c01c3e0","http://www.ft.com/ontology/factsetIdentifier":"0DR49W-E"}''\<close>
  by (rule AddConceptMetadataField_request)
    (simp_all add: testEnv_def testClient_def testServerURL_def)

section \<open>The status of the response\<close>

text \<open>
  CreateConcept and AddConceptMetadataField turn every response whose status is neither
  200 nor 201 into an error that carries the status code.
\<close>

lemma CreateConcept_status_error:
  assumes "PrefLabel concept \<noteq> []" "SchemaObject concept \<noteq> [] \<or> Broader concept \<noteq> []"
    and "Type concept \<noteq> []"
    and "makeAuthorizedRequest env ''POST''
           ((baseAPIURL c)\<lparr>RawQuery := ''path='' @ ''task:'' @ model c @ '':'' @ task
               @ ''/skos:Concept/rdf:instance''\<rparr>)
           (Some (render (JObject (wireMembers concept)))) c h = (Inr resp, c', h')"
    and "StatusCode resp \<noteq> 200" "StatusCode resp \<noteq> 201"
  shows "CreateConcept env c concept task h =
     (Some (Error (''failed creating new concept, returned status '' @ itoa (StatusCode resp))),
      c', h')"
  using assms by (auto simp: CreateConcept_def MarshalJSON_render Let_def)

lemma AddConceptMetadataField_status_error:
  assumes "makeAuthorizedRequest env ''POST''
     ((baseAPIURL c)\<lparr>RawQuery := ''path='' @ ''task:'' @ model c @ '':'' @ task @ ''/''
         @ QueryEscape (QueryEscape (''<'' @ ConceptURIPrefix @ ''/'' @ conceptID @ ''>''))\<rparr>)
     (Some (render (stringMap_json
        (AList.update (MetadataFieldPrefix @ ''/'' @ fieldName) fieldValue
           (AList.update ''@id'' (ConceptURIPrefix @ ''/'' @ conceptID) [])))))
     c h = (Inr resp, c', h')"
    and "StatusCode resp \<noteq> 200" "StatusCode resp \<noteq> 201"
  shows "AddConceptMetadataField env c conceptID fieldName fieldValue task h =
     (Some (Error (''failed adding metadata to concept '' @ conceptID @ '', returned status ''
                   @ itoa (StatusCode resp))), c', h')"
  using assms by (simp add: AddConceptMetadataField_def json_Marshal_def Let_def)

text \<open>
  GetConceptsWithCustomMetadata does not look at the status: what it returns for a
  response is decided by the body alone.
\<close>

lemma GetConceptsWithCustomMetadata_body_only:
  assumes "makeAuthorizedRequest env ''GET''
     ((baseAPIURL c)\<lparr>RawQuery := Values_Encode
        (Values_Add ''filters''
           (''subject(<'' @ fld @ ''>='' @ [dquote] @ val @ [dquote] @ '')'')
           (Values_Add ''properties'' ''rdf:type,meta:displayName,[]''
              (Values_Add ''path''
                 (path_Join [''task:'' @ model c @ '':'' @ task, ''skos:Concept'',
                             ''meta:transitiveInstance''])
                 [])))\<rparr>)
     None c h = (Inr resp, c', h')"
  shows "GetConceptsWithCustomMetadata env c task fld val h =
     (case decodeGraph env (Body resp) of
        Inl e \<Rightarrow> (Inl (Error (''failed to read search response: '' @ e)), c', h')
      | Inr graph \<Rightarrow> (Inr graph, c', h'))"
  using assms by (simp add: GetConceptsWithCustomMetadata_def Let_def)

text \<open>
  C7, at a concrete run. The service answers the search with status 500 and the body
  \<open>{"@graph":[]}\<close>: GetConceptsWithCustomMetadata returns the decoded (empty) graph and
  no error.
\<close>

theorem GetConceptsWithCustomMetadata_ignores_status:
  "fst (GetConceptsWithCustomMetadata (testEnv testTokenRequest (status 500 graphBody))
          testClient ''testTask'' ''http://www.ft.com/ontology/factsetIdentifier'' ''0DR49W-E'' [])
     = Inr []
   \<and> map snd (snd (snd (GetConceptsWithCustomMetadata
          (testEnv testTokenRequest (status 500 graphBody))
          testClient ''testTask'' ''http://www.ft.com/ontology/factsetIdentifier'' ''0DR49W-E'' [])))
     = [Inr \<lparr>StatusCode = 500, Body = graphBody\<rparr>]"
  by code_simp

section \<open>Construction of the client\<close>

text \<open>
  C8. When the token endpoint answers the token request of NewClient with a status other
  than 200, or with a body that does not decode, NewClient returns an error and no client;
  when it answers with 200 and a body that decodes to a token, NewClient returns a client
  whose stored access token is that token.
\<close>

theorem NewClient_token:
  assumes "newRequestErr env ''POST''
             (baseCloudURL\<lparr>Path := path_Join [Path baseCloudURL, ''token'']\<rparr>) = None"
    and "roundTrip env h
           (tokenRequest (baseCloudURL\<lparr>Path := path_Join [Path baseCloudURL, ''token'']\<rparr>) key)
         = Inr resp"
  shows "(StatusCode resp \<noteq> 200 \<or> (\<exists>e. decodeToken env (Body resp) = Inl e) \<longrightarrow>
            (\<exists>msg. fst (NewClient env baseCloudURL clientID key mdl h) = Inl (Error msg)))
       \<and> (\<forall>tok. StatusCode resp = 200 \<and> decodeToken env (Body resp) = Inr tok \<longrightarrow>
            (\<exists>client. fst (NewClient env baseCloudURL clientID key mdl h) = Inr client
               \<and> accessToken client = tok
               \<and> apiKey client = key \<and> model client = mdl
               \<and> apiTokenURL client = baseCloudURL\<lparr>Path := path_Join [Path baseCloudURL, ''token'']\<rparr>
               \<and> baseAPIURL client =
                   baseCloudURL\<lparr>Path := path_Join [Path baseCloudURL,
                                                    ''/sw/client/'' @ clientID @ ''/api'']\<rparr>))"
proof -
  let ?client = "\<lparr>baseAPIURL =
           baseCloudURL\<lparr>Path := path_Join [Path baseCloudURL, ''/sw/client/'' @ clientID @ ''/api'']\<rparr>,
         apiTokenURL = baseCloudURL\<lparr>Path := path_Join [Path baseCloudURL, ''token'']\<rparr>,
         apiKey = key, model = mdl, accessToken = []\<rparr>"
  have n: "newRequestErr env ''POST'' (apiTokenURL ?client) = None"
    using assms(1) by simp
  have r: "roundTrip env h (tokenRequest (apiTokenURL ?client) (apiKey ?client)) = Inr resp"
    using assms(2) by simp
  show ?thesis
    unfolding NewClient_def Let_def getAccessToken_cases[OF n] r
    by (auto split: sum.splits)
qed

theorem NewClient_token_witness:
  "(\<exists>msg. fst (NewClient (testEnv testTokenRequest (status 200 [])
                  \<lparr>roundTrip := \<lambda>h r. Inr \<lparr>StatusCode = 401, Body = []\<rparr>\<rparr>)
               testServerURL ''testClientID'' ''testAPIKey'' ''testModel'' [])
          = Inl (Error msg))
   \<and> (\<exists>client. fst (NewClient (testEnv testTokenRequest (status 200 []))
                  testServerURL ''testClientID'' ''testAPIKey'' ''testModel'' [])
          = Inr client \<and> accessToken client = ''test_token'')"
proof -
  let ?deny = "testEnv testTokenRequest (status 200 [])
                 \<lparr>roundTrip := \<lambda>h r. Inr \<lparr>StatusCode = 401, Body = []\<rparr>\<rparr>"
  let ?ok = "testEnv testTokenRequest (status 200 [])"
  have p: "path_Join [Path testServerURL, ''token''] = ''token''"
    by code_simp
  have t: "tokenRequest (testServerURL\<lparr>Path := ''token''\<rparr>) ''testAPIKey'' = testTokenRequest"
    by (simp add: testTokenRequest_def testClient_def)
  have 1: "\<exists>msg. fst (NewClient ?deny testServerURL ''testClientID'' ''testAPIKey''
                    ''testModel'' []) = Inl (Error msg)"
    using NewClient_token[of ?deny testServerURL "[]" "''testAPIKey''"
        "\<lparr>StatusCode = 401, Body = []\<rparr>" "''testClientID''" "''testModel''"]
    by (simp add: testEnv_def)
  have 2: "\<exists>client. fst (NewClient ?ok testServerURL ''testClientID'' ''testAPIKey''
                    ''testModel'' []) = Inr client \<and> accessToken client = ''test_token''"
    using NewClient_token[of ?ok testServerURL "[]" "''testAPIKey''"
        "\<lparr>StatusCode = 200, Body = tokenBody\<rparr>" "''testClientID''" "''testModel''"]
    by (auto simp add: testEnv_def testServer_def testDecodeToken_def p t)
  from 1 2 show ?thesis by blast
qed

end
